theory Spec2Isabelle
  imports Complex_Main "HOL-Library.Char_ord" "HOL-Library.List_Lexorder"
begin

section \<open>Python strings\<close>

text \<open>
  Strings are lists of characters; the model covers ASCII text, one \<open>char\<close> per code
  point. \<open>str.strip()\<close> removes the ASCII white space of \<open>str.isspace\<close>,
  \<open>str.lower()\<close> and \<open>str.upper()\<close> convert the letters A-Z and a-z and leave every
  other character as it is.
\<close>

definition is_space :: "char \<Rightarrow> bool" where
  "is_space c \<longleftrightarrow>
     c \<in> set [CHR 0x09, CHR 0x0A, CHR 0x0B, CHR 0x0C, CHR 0x0D,
                CHR 0x1C, CHR 0x1D, CHR 0x1E, CHR 0x1F, CHR 0x20]"

definition lstrip :: "string \<Rightarrow> string" where
  "lstrip s = dropWhile is_space s"

definition rstrip :: "string \<Rightarrow> string" where
  "rstrip s = rev (dropWhile is_space (rev s))"

definition strip :: "string \<Rightarrow> string" where
  "strip s = rstrip (lstrip s)"

definition upper_letters :: string where
  "upper_letters = ''ABCDEFGHIJKLMNOPQRSTUVWXYZ''"

definition lower_letters :: string where
  "lower_letters = ''abcdefghijklmnopqrstuvwxyz''"

definition lower_char :: "char \<Rightarrow> char" where
  "lower_char c = (case map_of (zip upper_letters lower_letters) c of
                     Some d \<Rightarrow> d | None \<Rightarrow> c)"

definition upper_char :: "char \<Rightarrow> char" where
  "upper_char c = (case map_of (zip lower_letters upper_letters) c of
                     Some d \<Rightarrow> d | None \<Rightarrow> c)"

definition lower :: "string \<Rightarrow> string" where
  "lower s = map lower_char s"

definition upper :: "string \<Rightarrow> string" where
  "upper s = map upper_char s"

text \<open>\<open>s.split(d)\<close> for a one-character separator: never empty, \<open>''''.split(d) = ['''']\<close>.\<close>

fun split_on :: "char \<Rightarrow> string \<Rightarrow> string list" where
  "split_on d [] = [[]]"
| "split_on d (c # cs) =
     (if c = d then [] # split_on d cs
      else (case split_on d cs of
              [] \<Rightarrow> [[c]]
            | p # ps \<Rightarrow> (c # p) # ps))"

text \<open>\<open>d.join(xs)\<close> for a one-character separator.\<close>

fun join_with :: "char \<Rightarrow> string list \<Rightarrow> string" where
  "join_with d [] = []"
| "join_with d [x] = x"
| "join_with d (x # y # ys) = x @ d # join_with d (y # ys)"

text \<open>\<open>sub in s\<close>: \<open>sub\<close> occurs in \<open>s\<close> as a contiguous piece.\<close>

fun starts_with :: "string \<Rightarrow> string \<Rightarrow> bool" where
  "starts_with [] s = True"
| "starts_with (p # ps) [] = False"
| "starts_with (p # ps) (c # cs) = (p = c \<and> starts_with ps cs)"

fun contains :: "string \<Rightarrow> string \<Rightarrow> bool" where
  "contains sub [] = (sub = [])"
| "contains sub (c # cs) = (starts_with sub (c # cs) \<or> contains sub cs)"

definition is_digit :: "char \<Rightarrow> bool" where
  "is_digit c \<longleftrightarrow> c \<in> set ''0123456789''"

definition digit_val :: "char \<Rightarrow> int" where
  "digit_val c = (case map_of (zip ''0123456789'' [0, 1, 2, 3, 4, 5, 6, 7, 8, 9]) c of
                    Some n \<Rightarrow> n | None \<Rightarrow> 0)"

text \<open>The number a string of decimal digits denotes (\<open>int(s)\<close> on a digit string).\<close>

definition digits_val :: "string \<Rightarrow> int" where
  "digits_val s = foldl (\<lambda>a c. 10 * a + digit_val c) 0 s"

section \<open>Python numbers: \<open>float(s)\<close> and \<open>int(f)\<close>\<close>

text \<open>
  A Python float is an IEEE binary64 value: a finite number (held here as the rational it
  is), an infinity with its sign, or not-a-number. \<open>float(s)\<close> reads a decimal literal and
  rounds it to the nearest binary64 value, ties to even; a literal too large becomes an
  infinity. A string that is no literal raises \<open>ValueError\<close>, which is the result \<open>None\<close>.
\<close>

datatype pyfloat = Fin rat | Inf bool | NaN

datatype py_error = ValueError | OverflowError | IndexError | TypeError

text \<open>The number of binary digits of a positive integer.\<close>

function bitlen :: "int \<Rightarrow> nat" where
  "bitlen a = (if 0 < a then Suc (bitlen (a div 2)) else 0)"
  by pat_completeness auto
termination
  by (relation "measure nat") auto

declare bitlen.simps [simp del]

text \<open>The exponent \<open>e\<close> with \<open>2 ^ e \<le> r < 2 ^ (e + 1)\<close>, for \<open>r > 0\<close>.\<close>

definition floor_log2 :: "rat \<Rightarrow> int" where
  "floor_log2 r =
     (let (a, b) = quotient_of r;
          e0 = int (bitlen a) - int (bitlen b)
      in if 2 powi e0 \<le> r then e0 else e0 - 1)"

definition round_half_even :: "rat \<Rightarrow> int" where
  "round_half_even x =
     (let f = \<lfloor>x\<rfloor>; d = x - of_int f
      in if d < 1 / 2 then f
         else if 1 / 2 < d then f + 1
         else if even f then f else f + 1)"

text \<open>The least magnitude that is too large for binary64: \<open>2 ^ 1024\<close>, written out.\<close>

definition binary64_overflow :: rat where
  "binary64_overflow = 179769313486231590772930519078902473361797697894230657273430081157732675805500963132708477322407536021120113879871393357658789768814416622492847430639474124377767893424865485276302219601246094119453082952085005768838150682342462881473913110540827237163350510684586298239947245938479716304835356329624224137216"

definition round_binary64 :: "rat \<Rightarrow> pyfloat" where
  "round_binary64 r =
     (if r = 0 then Fin 0
      else
        let a = \<bar>r\<bar>;
            e = max (floor_log2 a) (- 1022);
            q = 2 powi (e - 52);
            v = of_int (round_half_even (a / q)) * q
        in if binary64_overflow \<le> v then Inf (0 < r)
           else Fin (if r < 0 then - v else v))"

text \<open>
  A digit part of a literal: digits, with single underscores allowed between two digits.
\<close>

fun no_double_underscore :: "string \<Rightarrow> bool" where
  "no_double_underscore (a # b # cs) =
     (\<not> (a = CHR ''_'' \<and> b = CHR ''_'') \<and> no_double_underscore (b # cs))"
| "no_double_underscore cs = True"

definition valid_digitpart :: "string \<Rightarrow> bool" where
  "valid_digitpart p \<longleftrightarrow>
     p \<noteq> [] \<and> is_digit (hd p) \<and> is_digit (last p) \<and>
     (\<forall>c \<in> set p. is_digit c \<or> c = CHR ''_'') \<and> no_double_underscore p"

definition digitpart_val :: "string \<Rightarrow> int" where
  "digitpart_val p = digits_val (filter is_digit p)"

definition digitpart_len :: "string \<Rightarrow> nat" where
  "digitpart_len p = length (filter is_digit p)"

text \<open>The exponent of a literal, after the \<open>e\<close>: an optional sign and a digit part.\<close>

definition parse_exponent :: "string \<Rightarrow> int option" where
  "parse_exponent s =
     (case s of
        [] \<Rightarrow> None
      | c # cs \<Rightarrow>
          if c = CHR ''+'' then (if valid_digitpart cs then Some (digitpart_val cs) else None)
          else if c = CHR ''-'' then (if valid_digitpart cs then Some (- digitpart_val cs) else None)
          else if valid_digitpart s then Some (digitpart_val s) else None)"

text \<open>
  The mantissa: an integer part and a fraction, one of which may be missing. The result is
  the number the digits spell and the count of digits after the point.
\<close>

definition parse_mantissa :: "string \<Rightarrow> (int \<times> nat) option" where
  "parse_mantissa s =
     (let ip = takeWhile (\<lambda>c. c \<noteq> CHR ''.'') s;
          rest = dropWhile (\<lambda>c. c \<noteq> CHR ''.'') s
      in case rest of
           [] \<Rightarrow> if valid_digitpart ip then Some (digitpart_val ip, 0) else None
         | _ # fp \<Rightarrow>
             if (ip = [] \<or> valid_digitpart ip) \<and> (fp = [] \<or> valid_digitpart fp) \<and>
                \<not> (ip = [] \<and> fp = [])
             then Some (digitpart_val ip * 10 ^ digitpart_len fp + digitpart_val fp,
                        digitpart_len fp)
             else None)"

definition is_exp_char :: "char \<Rightarrow> bool" where
  "is_exp_char c \<longleftrightarrow> c = CHR ''e'' \<or> c = CHR ''E''"

definition parse_decimal :: "string \<Rightarrow> rat option" where
  "parse_decimal s =
     (let m = takeWhile (\<lambda>c. \<not> is_exp_char c) s;
          rest = dropWhile (\<lambda>c. \<not> is_exp_char c) s
      in case parse_mantissa m of
           None \<Rightarrow> None
         | Some (n, k) \<Rightarrow>
             (case rest of
                [] \<Rightarrow> Some (of_int n * 10 powi (- int k))
              | _ # ex \<Rightarrow>
                  (case parse_exponent ex of
                     None \<Rightarrow> None
                   | Some e \<Rightarrow> Some (of_int n * 10 powi (e - int k)))))"

definition parse_unsigned :: "string \<Rightarrow> pyfloat option" where
  "parse_unsigned s =
     (if lower s = ''inf'' \<or> lower s = ''infinity'' then Some (Inf True)
      else if lower s = ''nan'' then Some NaN
      else map_option round_binary64 (parse_decimal s))"

fun negate :: "pyfloat \<Rightarrow> pyfloat" where
  "negate (Fin r) = Fin (- r)"
| "negate (Inf b) = Inf (\<not> b)"
| "negate NaN = NaN"

definition float_of_str :: "string \<Rightarrow> pyfloat option" where
  "float_of_str s0 =
     (case strip s0 of
        [] \<Rightarrow> None
      | c # cs \<Rightarrow>
          if c = CHR ''+'' then parse_unsigned cs
          else if c = CHR ''-'' then map_option negate (parse_unsigned cs)
          else parse_unsigned (c # cs))"

text \<open>\<open>int(f)\<close> truncates towards zero; it raises on an infinity and on not-a-number.\<close>

definition py_trunc :: "rat \<Rightarrow> int" where
  "py_trunc r = (if 0 \<le> r then \<lfloor>r\<rfloor> else \<lceil>r\<rceil>)"

fun int_of_float :: "pyfloat \<Rightarrow> py_error + int" where
  "int_of_float (Fin r) = Inr (py_trunc r)"
| "int_of_float (Inf b) = Inl OverflowError"
| "int_of_float NaN = Inl ValueError"

section \<open>The size and quantity parser (helpers/utils.py)\<close>

text \<open>
  \<open>parse_size_and_quantity\<close>: the \<open>try\<close> around \<open>int(float(parts[1].strip()))\<close> catches
  \<open>ValueError\<close> only, so any other exception leaves the function.
\<close>

definition parse_size_and_quantity :: "string \<Rightarrow> py_error + (string \<times> int)" where
  "parse_size_and_quantity s0 =
     (let size_string = strip s0 in
      if lower size_string = ''custom'' then Inr (''Custom'', 0)
      else if CHR ''-'' \<in> set size_string \<and> count_list size_string CHR ''-'' = 1 then
        (case split_on CHR ''-'' size_string of
           p0 # p1 # _ \<Rightarrow>
             (let size_part = strip p0 in
              case float_of_str (strip p1) of
                None \<Rightarrow> Inr (size_string, 0)
              | Some f \<Rightarrow>
                  (case int_of_float f of
                     Inl ValueError \<Rightarrow> Inr (size_string, 0)
                   | Inl e \<Rightarrow> Inl e
                   | Inr qty_part \<Rightarrow> Inr (size_part, qty_part)))
         | _ \<Rightarrow> Inl IndexError)
      else Inr (size_string, 0))"



section \<open>Python values and their text\<close>

text \<open>\<open>str(n)\<close> of an integer: its decimal digits, with a minus sign when negative.\<close>

function str_of_nat :: "int \<Rightarrow> string" where
  "str_of_nat n =
     (if n < 10 then [''0123456789'' ! nat (max n 0)]
      else str_of_nat (n div 10) @ [''0123456789'' ! nat (n mod 10)])"
  by pat_completeness auto
termination
  by (relation "measure nat") auto

declare str_of_nat.simps [simp del]

definition str_of_int :: "int \<Rightarrow> string" where
  "str_of_int n = (if n < 0 then CHR ''-'' # str_of_nat (- n) else str_of_nat n)"

text \<open>
  \<open>repr\<close> of a finite float: the shortest decimal that reads back as the same binary64
  value (the nearer one, when two of that length do), printed with a decimal point when its
  exponent lies between \<open>-4\<close> and \<open>16\<close> and in scientific notation otherwise.
\<close>

fun log10_up :: "nat \<Rightarrow> rat \<Rightarrow> int" where
  "log10_up 0 x = 0"
| "log10_up (Suc n) x = (if 10 \<le> x then 1 + log10_up n (x / 10) else 0)"

fun log10_down :: "nat \<Rightarrow> rat \<Rightarrow> int" where
  "log10_down 0 x = 0"
| "log10_down (Suc n) x = (if x < 1 then log10_down n (x * 10) - 1 else 0)"

text \<open>The exponent \<open>e\<close> with \<open>10 ^ e \<le> x < 10 ^ (e + 1)\<close>, for a positive binary64 value.\<close>

definition floor_log10 :: "rat \<Rightarrow> int" where
  "floor_log10 x = (if 1 \<le> x then log10_up 400 x else log10_down 400 x)"

text \<open>
  The decimal with at most \<open>d\<close> digits that reads back as \<open>x\<close>, as its digits and the
  power of ten of its last digit, if there is one.
\<close>

definition repr_candidate :: "rat \<Rightarrow> nat \<Rightarrow> (int \<times> int) option" where
  "repr_candidate x d =
     (let p = floor_log10 x - int d + 1;
          lo = \<lfloor>x / 10 powi p\<rfloor>;
          hi = lo + 1;
          ok_lo = (round_binary64 (of_int lo * 10 powi p) = Fin x);
          ok_hi = (round_binary64 (of_int hi * 10 powi p) = Fin x)
      in if ok_lo \<and> ok_hi then
           (if x - of_int lo * 10 powi p \<le> of_int hi * 10 powi p - x
            then Some (lo, p) else Some (hi, p))
         else if ok_lo then Some (lo, p)
         else if ok_hi then Some (hi, p)
         else None)"

fun shortest_repr :: "rat \<Rightarrow> nat list \<Rightarrow> (int \<times> int)" where
  "shortest_repr x [] = (0, 0)"
| "shortest_repr x (d # ds) =
     (case repr_candidate x d of Some c \<Rightarrow> c | None \<Rightarrow> shortest_repr x ds)"

text \<open>Trailing zeros of the digits move into the power of ten.\<close>

function strip_zeros :: "int \<times> int \<Rightarrow> int \<times> int" where
  "strip_zeros (n, p) =
     (if 0 < n \<and> n mod 10 = 0 then strip_zeros (n div 10, p + 1) else (n, p))"
  by pat_completeness auto
termination
  by (relation "measure (\<lambda>(n, p). nat n)") auto

declare strip_zeros.simps [simp del]

definition float_repr_pos :: "rat \<Rightarrow> string" where
  "float_repr_pos x =
     (let (n, p) = strip_zeros (shortest_repr x [1 ..< 18]);
          ds = str_of_nat n;
          decpt = int (length ds) + p
      in if - 4 < decpt \<and> decpt \<le> 16 then
           (if decpt \<le> 0 then ''0.'' @ replicate (nat (- decpt)) CHR ''0'' @ ds
            else if int (length ds) \<le> decpt
              then ds @ replicate (nat (decpt - int (length ds))) CHR ''0'' @ ''.0''
            else take (nat decpt) ds @ ''.'' @ drop (nat decpt) ds)
         else
           (let e = decpt - 1;
                es = str_of_nat \<bar>e\<bar>
            in take 1 ds @ (if 1 < length ds then ''.'' @ drop 1 ds else [])
               @ ''e'' @ (if e < 0 then ''-'' else ''+'')
               @ (if length es < 2 then CHR ''0'' # es else es)))"

fun float_repr :: "pyfloat \<Rightarrow> string" where
  "float_repr NaN = ''nan''"
| "float_repr (Inf b) = (if b then ''inf'' else ''-inf'')"
| "float_repr (Fin r) =
     (if r = 0 then ''0.0''
      else if r < 0 then CHR ''-'' # float_repr_pos (- r)
      else float_repr_pos r)"

text \<open>
  The values a table cell or a setting can hold: nothing (\<open>None\<close>), a string, an integer
  or a float (which may be not-a-number, the mark of an empty cell).
\<close>

datatype pyval = PNone | PStr string | PInt int | PFloat pyfloat

fun py_str :: "pyval \<Rightarrow> string" where
  "py_str PNone = ''None''"
| "py_str (PStr s) = s"
| "py_str (PInt n) = str_of_int n"
| "py_str (PFloat f) = float_repr f"

text \<open>\<open>pd.isna(v)\<close>: \<open>None\<close> and not-a-number.\<close>

fun isna :: "pyval \<Rightarrow> bool" where
  "isna PNone = True"
| "isna (PFloat NaN) = True"
| "isna v = False"

text \<open>\<open>bool(v)\<close>: \<open>None\<close>, the empty string and zero are false.\<close>

fun truthy :: "pyval \<Rightarrow> bool" where
  "truthy PNone = False"
| "truthy (PStr s) = (s \<noteq> [])"
| "truthy (PInt n) = (n \<noteq> 0)"
| "truthy (PFloat (Fin r)) = (r \<noteq> 0)"
| "truthy (PFloat f) = True"

text \<open>A row of a table (a pandas Series): column name to cell.\<close>

type_synonym row = "string \<rightharpoonup> pyval"

section \<open>The description compositor\<close>

text \<open>
  A description element is a dictionary read with \<open>element.get\<close>: a missing key is
  \<open>None\<close> here, and the defaults of the source are applied where the key is read.
\<close>

record element =
  el_column :: "string option"
  el_label :: "string option"
  el_html_tag :: "string option"
  el_order :: "int option"

definition get_column :: "element \<Rightarrow> string" where
  "get_column e = (case el_column e of None \<Rightarrow> [] | Some c \<Rightarrow> c)"

definition get_label :: "element \<Rightarrow> string" where
  "get_label e = (case el_label e of None \<Rightarrow> [] | Some l \<Rightarrow> l)"

definition get_html_tag :: "element \<Rightarrow> string" where
  "get_html_tag e = (case el_html_tag e of None \<Rightarrow> ''p'' | Some t \<Rightarrow> t)"

definition get_order :: "element \<Rightarrow> int" where
  "get_order e = (case el_order e of None \<Rightarrow> 0 | Some n \<Rightarrow> n)"

subsection \<open>core/workflow\_manager.py\<close>

text \<open>\<open>WorkflowManager._clean_value\<close>.\<close>

definition wm_clean_value :: "pyval \<Rightarrow> string" where
  "wm_clean_value v = (if isna v \<or> strip (py_str v) = [] then [] else strip (py_str v))"

text \<open>The fragment one element contributes, once its value is known to be non-empty.\<close>

definition wm_fragment :: "string \<Rightarrow> string \<Rightarrow> string \<Rightarrow> string" where
  "wm_fragment html_tag label val =
     (if label \<noteq> [] \<and> strip label \<noteq> [] then
        (if html_tag = ''none'' then label @ '': '' @ val
         else if html_tag = ''br'' then label @ '': '' @ val @ ''<br>''
         else if html_tag = ''li'' then ''<li>'' @ label @ '': '' @ val @ ''</li>''
         else if html_tag = ''p'' then ''<p>'' @ label @ '': '' @ val @ ''</p>''
         else ''<p><'' @ html_tag @ ''>'' @ label @ '' : </'' @ html_tag @ ''> '' @ val @ ''</p>'')
      else
        (if html_tag = ''none'' then val
         else if html_tag = ''br'' then val @ ''<br>''
         else if html_tag = ''li'' then ''<li>'' @ val @ ''</li>''
         else if html_tag = ''p'' then ''<p>'' @ val @ ''</p>''
         else ''<p><'' @ html_tag @ ''>'' @ val @ ''</'' @ html_tag @ ''></p>''))"

text \<open>The loop of \<open>WorkflowManager._generate_description_html\<close> over the elements.\<close>

fun wm_html_parts :: "element list \<Rightarrow> row \<Rightarrow> string list" where
  "wm_html_parts [] r = []"
| "wm_html_parts (e # es) r =
     (let column = get_column e; label = get_label e; html_tag = get_html_tag e
      in if column \<noteq> [] \<and> column \<in> dom r then
           (let val = wm_clean_value (the (r column))
            in if val \<noteq> [] then wm_fragment html_tag label val # wm_html_parts es r
               else wm_html_parts es r)
         else wm_html_parts es r)"

definition generate_description_html :: "element list \<Rightarrow> row \<Rightarrow> string" where
  "generate_description_html elements r = join_with CHR '' '' (wm_html_parts elements r)"

subsection \<open>helpers/description\_generator.py\<close>

definition integer_fields :: "string list" where
  "integer_fields =
     [''no of components'', ''components'', ''number_of_components'',
      ''component_count'', ''quantity'', ''qty'', ''count'', ''pieces'',
      ''set'', ''items'', ''number'', ''no'']"

text \<open>
  \<open>DescriptionGenerator._clean_value_no_decimals\<close>. Its handler catches \<open>ValueError\<close>
  and \<open>TypeError\<close>; the \<open>OverflowError\<close> of \<open>int\<close> on an infinity leaves the function.
\<close>

definition clean_value_no_decimals :: "pyval \<Rightarrow> string \<Rightarrow> py_error + string" where
  "clean_value_no_decimals v column_name =
     (if isna v \<or> strip (py_str v) = [] then Inr []
      else
        let column_lower = lower column_name;
            should_be_integer = (\<exists>field \<in> set integer_fields. contains field column_lower)
        in case float_of_str (strip (py_str v)) of
             None \<Rightarrow> Inr (strip (py_str v))
           | Some num_value \<Rightarrow>
               (case int_of_float num_value of
                  Inl ValueError \<Rightarrow> Inr (strip (py_str v))
                | Inl e \<Rightarrow> Inl e
                | Inr n \<Rightarrow>
                    if should_be_integer \<or> num_value = Fin (of_int n) then Inr (str_of_int n)
                    else Inr (strip (py_str v))))"

text \<open>
  The fragment of \<open>DescriptionGenerator._generate_dynamic_description\<close>: it has no branch
  for the tag \<open>p\<close>, which therefore takes the last one.
\<close>

definition dg_fragment :: "string \<Rightarrow> string \<Rightarrow> string \<Rightarrow> string" where
  "dg_fragment html_tag label val =
     (if label \<noteq> [] \<and> strip label \<noteq> [] then
        (if html_tag = ''none'' then label @ '': '' @ val
         else if html_tag = ''br'' then label @ '': '' @ val @ ''<br>''
         else if html_tag = ''li'' then ''<li>'' @ label @ '': '' @ val @ ''</li>''
         else ''<p><'' @ html_tag @ ''>'' @ label @ '' : </'' @ html_tag @ ''> '' @ val @ ''</p>'')
      else
        (if html_tag = ''none'' then val
         else if html_tag = ''br'' then val @ ''<br>''
         else if html_tag = ''li'' then ''<li>'' @ val @ ''</li>''
         else ''<p><'' @ html_tag @ ''>'' @ val @ ''</'' @ html_tag @ ''></p>''))"

fun dg_html_parts :: "element list \<Rightarrow> row \<Rightarrow> py_error + string list" where
  "dg_html_parts [] r = Inr []"
| "dg_html_parts (e # es) r =
     (let column = get_column e; label = get_label e; html_tag = get_html_tag e
      in if column \<noteq> [] \<and> column \<in> dom r then
           (case clean_value_no_decimals (the (r column)) column of
              Inl err \<Rightarrow> Inl err
            | Inr val \<Rightarrow>
                if val \<noteq> [] then
                  (case dg_html_parts es r of
                     Inl err \<Rightarrow> Inl err
                   | Inr ps \<Rightarrow> Inr (dg_fragment html_tag label val # ps))
                else dg_html_parts es r)
         else dg_html_parts es r)"

text \<open>
  The elements with a column, in ascending \<open>order\<close> (a stable sort); any exception gives
  the empty description.
\<close>

definition generate_dynamic_description :: "element list \<Rightarrow> row \<Rightarrow> string" where
  "generate_dynamic_description description_elements r =
     (let sorted_elements = sort_key get_order (filter (\<lambda>e. get_column e \<noteq> []) description_elements)
      in case dg_html_parts sorted_elements r of
           Inl err \<Rightarrow> []
         | Inr html_parts \<Rightarrow> join_with CHR '' '' html_parts)"

section \<open>Sorting sizes (helpers/utils.py)\<close>

definition standard_order :: "string list" where
  "standard_order =
     [''XXS'', ''XS'', ''S'', ''M'', ''L'', ''XL'', ''XXL'', ''XXXL'',
      ''2XL'', ''3XL'', ''4XL'', ''5XL'']"

text \<open>The comma-separated pieces, trimmed, without the empty ones.\<close>

definition size_strings :: "string \<Rightarrow> string list" where
  "size_strings sizes_list = filter (\<lambda>s. s \<noteq> []) (map strip (split_on CHR '','' sizes_list))"

text \<open>The first loop: every piece is parsed; an exception of the parser ends the function.\<close>

fun parse_sizes :: "string list \<Rightarrow> py_error + (string \<times> int) list" where
  "parse_sizes [] = Inr []"
| "parse_sizes (t # ts) =
     (case parse_size_and_quantity t of
        Inl e \<Rightarrow> Inl e
      | Inr p \<Rightarrow> (case parse_sizes ts of Inl e \<Rightarrow> Inl e | Inr ps \<Rightarrow> Inr (p # ps)))"

text \<open>\<open>size_quantity_map\<close>: a later piece with the same size replaces the earlier quantity.\<close>

definition quantity_map :: "(string \<times> int) list \<Rightarrow> (string \<rightharpoonup> int)" where
  "quantity_map ps = foldl (\<lambda>m (k, v). m(k \<mapsto> v)) Map.empty ps"

text \<open>Removing duplicates, keeping the first occurrence; \<open>acc\<close> is \<open>unique_sizes\<close> so far.\<close>

fun unique_loop :: "string list \<Rightarrow> string list \<Rightarrow> string list" where
  "unique_loop [] acc = acc"
| "unique_loop (x # xs) acc =
     (if x \<in> set acc then unique_loop xs acc else unique_loop xs (acc @ [x]))"

datatype size_class = Standard nat | Numeric int | Custom

text \<open>\<open>re.match(r'^\d+$', s)\<close>: digits only; \<open>$\<close> also matches before a final newline.\<close>

definition all_digits :: "string \<Rightarrow> bool" where
  "all_digits s =
     (let t = (if s \<noteq> [] \<and> last s = CHR 0x0A then butlast s else s)
      in t \<noteq> [] \<and> list_all is_digit t)"

text \<open>\<open>re.match(r'^X\d+', s)\<close>.\<close>

definition x_digits :: "string \<Rightarrow> bool" where
  "x_digits s = (case s of c # d # _ \<Rightarrow> c = CHR ''X'' \<and> is_digit d | _ \<Rightarrow> False)"

text \<open>\<open>re.findall(r'\d+', s)[0]\<close>, or the empty string when \<open>s\<close> has no digit.\<close>

definition first_digits :: "string \<Rightarrow> string" where
  "first_digits s = takeWhile is_digit (dropWhile (\<lambda>c. \<not> is_digit c) s)"

fun find_standard :: "string \<Rightarrow> string list \<Rightarrow> nat \<Rightarrow> nat option" where
  "find_standard s [] idx = None"
| "find_standard s (std_size # rest) idx =
     (if upper s = upper std_size then Some idx else find_standard s rest (Suc idx))"

definition classify :: "string \<Rightarrow> size_class" where
  "classify s =
     (case find_standard s standard_order 0 of
        Some idx \<Rightarrow> Standard idx
      | None \<Rightarrow>
          if all_digits s then Numeric (digits_val (filter is_digit s))
          else if x_digits (upper s) then
            (if first_digits s \<noteq> [] then Numeric (digits_val (first_digits s)) else Custom)
          else Custom)"

text \<open>The three lists the second loop fills, in the order of \<open>unique_sizes\<close>.\<close>

fun partition_sizes ::
  "string list \<Rightarrow> (nat \<times> string) list \<times> (int \<times> string) list \<times> string list" where
  "partition_sizes [] = ([], [], [])"
| "partition_sizes (s # ss) =
     (case partition_sizes ss of
        (standard_sizes, numeric_sizes, custom_sizes) \<Rightarrow>
          (case classify s of
             Standard idx \<Rightarrow> ((idx, s) # standard_sizes, numeric_sizes, custom_sizes)
           | Numeric n \<Rightarrow> (standard_sizes, (n, s) # numeric_sizes, custom_sizes)
           | Custom \<Rightarrow> (standard_sizes, numeric_sizes, s # custom_sizes)))"

text \<open>
  The sorts are stable sorts by the key; strings compare by character code, position by
  position.
\<close>

definition order_sizes :: "string list \<Rightarrow> string list" where
  "order_sizes unique_sizes =
     (case partition_sizes unique_sizes of
        (standard_sizes, numeric_sizes, custom_sizes) \<Rightarrow>
          map snd (sort_key fst standard_sizes) @ map snd (sort_key fst numeric_sizes)
          @ sort custom_sizes)"

definition sort_sizes_with_quantities ::
  "string \<Rightarrow> py_error + (string list \<times> (string \<rightharpoonup> int))" where
  "sort_sizes_with_quantities sizes_list =
     (case parse_sizes (size_strings sizes_list) of
        Inl e \<Rightarrow> Inl e
      | Inr ps \<Rightarrow>
          Inr (order_sizes (unique_loop (map fst ps) []), quantity_map ps))"

text \<open>The ordered size list alone.\<close>

definition sorted_sizes :: "string \<Rightarrow> py_error + string list" where
  "sorted_sizes sizes_list = map_sum id fst (sort_sizes_with_quantities sizes_list)"

text \<open>A string that \<open>strip\<close> leaves as it is.\<close>

definition stripped :: "string \<Rightarrow> bool" where
  "stripped s \<longleftrightarrow> s = [] \<or> (\<not> is_space (hd s) \<and> \<not> is_space (last s))"

fun standard_class :: "size_class \<Rightarrow> bool" where
  "standard_class (Standard i) = True"
| "standard_class c = False"

fun numeric_class :: "size_class \<Rightarrow> bool" where
  "numeric_class (Numeric n) = True"
| "numeric_class c = False"

section \<open>The data processor (backend/data\_processor.py, helpers/utils.py)\<close>

text \<open>The field mapping: canonical field name to the column of the input table.\<close>

type_synonym mapping = "string \<rightharpoonup> string"

text \<open>\<open>get_column_value(row, column_mapping, standard_name, default)\<close>.\<close>

definition get_column_value :: "row \<Rightarrow> mapping \<Rightarrow> string \<Rightarrow> pyval \<Rightarrow> pyval" where
  "get_column_value r column_mapping standard_name dflt =
     (case column_mapping standard_name of
        None \<Rightarrow> dflt
      | Some actual_column \<Rightarrow>
          if actual_column \<noteq> [] \<and> actual_column \<in> dom r then the (r actual_column)
          else dflt)"

text \<open>\<open>row.get(key, default)\<close>.\<close>

definition row_get :: "row \<Rightarrow> string \<Rightarrow> pyval \<Rightarrow> pyval" where
  "row_get r key dflt = (case r key of None \<Rightarrow> dflt | Some v \<Rightarrow> v)"

text \<open>The test that opens \<open>clean_value\<close>: the value counts as empty.\<close>

definition is_blank :: "pyval \<Rightarrow> bool" where
  "is_blank v \<longleftrightarrow> isna v \<or> v = PStr ''nan'' \<or> v = PStr ''NaN'' \<or> strip (py_str v) = []"

text \<open>\<open>clean_value(value)\<close> with \<open>is_numeric=False\<close>: always a string.\<close>

definition clean_text :: "pyval \<Rightarrow> string" where
  "clean_text v = (if is_blank v then [] else strip (py_str v))"

text \<open>
  \<open>clean_value(value, is_numeric=True, default_numeric)\<close>: the handler catches
  \<open>ValueError\<close> and \<open>TypeError\<close>; \<open>int\<close> of an infinity raises \<open>OverflowError\<close>.
\<close>

definition clean_numeric :: "pyval \<Rightarrow> pyval \<Rightarrow> py_error + pyval" where
  "clean_numeric v default_numeric =
     (if is_blank v then Inr default_numeric
      else case float_of_str (strip (py_str v)) of
             None \<Rightarrow> Inr default_numeric
           | Some num_value \<Rightarrow>
               (case int_of_float num_value of
                  Inl ValueError \<Rightarrow> Inr default_numeric
                | Inl e \<Rightarrow> Inl e
                | Inr n \<Rightarrow> if num_value = Fin (of_int n) then Inr (PInt n)
                           else Inr (PFloat num_value)))"

definition clean_value :: "pyval \<Rightarrow> bool \<Rightarrow> pyval \<Rightarrow> py_error + pyval" where
  "clean_value v is_numeric default_numeric =
     (if is_numeric then clean_numeric v default_numeric else Inr (PStr (clean_text v)))"

text \<open>
  The configuration is a dictionary read with \<open>config.get(key, default)\<close>; a field that is
  \<open>None\<close> here is a key the dictionary does not have.
\<close>

record config =
  bulk_qty_mode :: "bool option"
  bulk_qty :: "pyval option"
  use_expected_qty :: "bool option"
  fallback_qty :: "pyval option"
  default_qty :: "pyval option"
  bulk_compare_price_mode :: "bool option"
  bulk_compare_price :: "pyval option"
  use_expected_compare_price :: "bool option"
  default_compare_price :: "pyval option"

definition cfg_get :: "'a option \<Rightarrow> 'a \<Rightarrow> 'a" where
  "cfg_get field dflt = (case field of None \<Rightarrow> dflt | Some v \<Rightarrow> v)"

text \<open>\<open>a >= 0\<close> on a float.\<close>

fun float_nonneg :: "pyfloat \<Rightarrow> bool" where
  "float_nonneg (Fin r) = (0 \<le> r)"
| "float_nonneg (Inf b) = b"
| "float_nonneg NaN = False"

text \<open>\<open>DataProcessor._extract_compare_price\<close>.\<close>

definition extract_compare_price :: "row \<Rightarrow> mapping \<Rightarrow> config \<Rightarrow> pyval" where
  "extract_compare_price r column_mapping cfg =
     (if cfg_get (bulk_compare_price_mode cfg) False
        then cfg_get (bulk_compare_price cfg) (PFloat (Fin 0))
      else if cfg_get (use_expected_compare_price cfg) True then
        (let compare_price_value =
               get_column_value r column_mapping ''Variant Compare At Price'' (PStr [])
         in if truthy compare_price_value \<and> \<not> isna compare_price_value \<and>
               strip (py_str compare_price_value) \<noteq> []
            then (case float_of_str (strip (py_str compare_price_value)) of
                    None \<Rightarrow> PNone
                  | Some numeric_value \<Rightarrow>
                      if float_nonneg numeric_value then PFloat numeric_value else PNone)
            else PNone)
      else cfg_get (default_compare_price cfg) (PFloat (Fin 0)))"

text \<open>\<open>a > 0\<close> on a number.\<close>

fun positive :: "pyval \<Rightarrow> bool" where
  "positive (PInt n) = (0 < n)"
| "positive (PFloat (Fin r)) = (0 < r)"
| "positive (PFloat (Inf b)) = b"
| "positive v = False"

text \<open>\<open>DataProcessor._extract_quantity\<close>.\<close>

definition extract_quantity :: "string \<Rightarrow> (string \<rightharpoonup> int) \<Rightarrow> config \<Rightarrow> pyval" where
  "extract_quantity sz size_quantity_map cfg =
     (if cfg_get (bulk_qty_mode cfg) False then cfg_get (bulk_qty cfg) (PInt 10)
      else if cfg_get (use_expected_qty cfg) True then
        (let extracted_qty = (case size_quantity_map sz of None \<Rightarrow> 0 | Some q \<Rightarrow> q)
         in if 0 < extracted_qty then PInt extracted_qty
            else cfg_get (fallback_qty cfg) (cfg_get (default_qty cfg) (PInt 10)))
      else cfg_get (default_qty cfg) (PInt 10))"

text \<open>\<open>a or b\<close>.\<close>

definition py_or :: "pyval \<Rightarrow> pyval \<Rightarrow> pyval" where
  "py_or a b = (if truthy a then a else b)"

text \<open>
  The display form of a size: \<open>size.split('-')[0].strip()\<close> when the size is not empty and
  has a hyphen, the size itself otherwise. A split is never empty.
\<close>

definition display_size_of :: "string \<Rightarrow> string" where
  "display_size_of sz =
     (if sz \<noteq> [] \<and> CHR ''-'' \<in> set sz
      then (case split_on CHR ''-'' sz of p # _ \<Rightarrow> strip p | [] \<Rightarrow> sz)
      else sz)"

text \<open>One exploded row: the source row with the five fields of the variant set.\<close>

definition new_row ::
  "row \<Rightarrow> string \<Rightarrow> string \<Rightarrow> (string \<rightharpoonup> int) \<Rightarrow> pyval \<Rightarrow> config \<Rightarrow> row" where
  "new_row r sz color size_quantity_map uploaded_compare_price cfg =
     r(''sizes_list'' \<mapsto> PStr sz,
       ''display_size'' \<mapsto> PStr (display_size_of sz),
       ''colours_list'' \<mapsto> PStr color,
       ''extracted_quantity'' \<mapsto> extract_quantity sz size_quantity_map cfg,
       ''uploaded_compare_price'' \<mapsto> uploaded_compare_price)"

text \<open>The cleaned text of the size cell and of the colour cell of a source row.\<close>

definition sizes_text :: "row \<Rightarrow> mapping \<Rightarrow> string" where
  "sizes_text r column_mapping =
     clean_text (py_or (get_column_value r column_mapping ''Option1 Value'' (PStr []))
                       (get_column_value r column_mapping ''size'' (PStr [])))"

definition colours_text :: "row \<Rightarrow> mapping \<Rightarrow> string" where
  "colours_text r column_mapping =
     clean_text (py_or (get_column_value r column_mapping ''Option2 Value'' (PStr []))
                       (get_column_value r column_mapping ''colour'' (PStr [])))"

text \<open>
  The body of the loop of \<open>DataProcessor._process_variants\<close> for one source row; the
  exception of the size parser leaves it.
\<close>

definition explode_row :: "mapping \<Rightarrow> config \<Rightarrow> row \<Rightarrow> py_error + row list" where
  "explode_row column_mapping cfg r =
     (case sort_sizes_with_quantities (sizes_text r column_mapping) of
        Inl e \<Rightarrow> Inl e
      | Inr (sorted_sizes0, size_quantity_map0) \<Rightarrow>
          let colors0 = filter (\<lambda>c. c \<noteq> [])
                          (map strip (split_on CHR '','' (colours_text r column_mapping)));
              uploaded_compare_price = extract_compare_price r column_mapping cfg;
              sorted_sizes = (if sorted_sizes0 = [] then [[]] else sorted_sizes0);
              size_quantity_map =
                (if sorted_sizes0 = [] then [[] \<mapsto> 0] else size_quantity_map0);
              colors = (if colors0 = [] then [[]] else colors0)
          in Inr (concat (map (\<lambda>sz. map (\<lambda>color.
                    new_row r sz color size_quantity_map uploaded_compare_price cfg) colors)
                  sorted_sizes)))"

fun process_variants :: "row list \<Rightarrow> mapping \<Rightarrow> config \<Rightarrow> py_error + row list" where
  "process_variants [] column_mapping cfg = Inr []"
| "process_variants (r # rs) column_mapping cfg =
     (case explode_row column_mapping cfg r of
        Inl e \<Rightarrow> Inl e
      | Inr xs \<Rightarrow>
          (case process_variants rs column_mapping cfg of
             Inl e \<Rightarrow> Inl e
           | Inr ys \<Rightarrow> Inr (xs @ ys)))"

text \<open>
  The variant key of \<open>_apply_variant_mappings\<close>: size, colour and title as text, trimmed,
  joined with a bar.
\<close>

definition variant_key :: "row \<Rightarrow> mapping \<Rightarrow> string" where
  "variant_key r column_mapping =
     strip (py_str (row_get r ''sizes_list'' PNone)) @ ''|'' @
     strip (py_str (row_get r ''colours_list'' PNone)) @ ''|'' @
     strip (py_str (get_column_value r column_mapping ''Title'' (PStr ''Unknown'')))"

text \<open>\<open>x == 0\<close> on a value.\<close>

fun is_zero :: "pyval \<Rightarrow> bool" where
  "is_zero (PInt n) = (n = 0)"
| "is_zero (PFloat (Fin r)) = (r = 0)"
| "is_zero v = False"

text \<open>\<open>float(x)\<close> on a value.\<close>

fun to_float :: "pyval \<Rightarrow> py_error + pyfloat" where
  "to_float (PFloat f) = Inr f"
| "to_float (PInt n) =
     (case round_binary64 (of_int n) of Inf b \<Rightarrow> Inl OverflowError | f \<Rightarrow> Inr f)"
| "to_float (PStr s) = (case float_of_str s of None \<Rightarrow> Inl ValueError | Some f \<Rightarrow> Inr f)"
| "to_float PNone = Inl TypeError"

text \<open>
  The compare price \<open>_apply_variant_mappings\<close> first gives a row: the bulk price, or the
  entry of the per-variant store of the session when the session has one (\<open>None\<close> for a
  key it lacks), or the extracted price of the row.
\<close>

definition stored_compare_price ::
  "config \<Rightarrow> (string \<rightharpoonup> pyval) option \<Rightarrow> mapping \<Rightarrow> row \<Rightarrow> pyval" where
  "stored_compare_price cfg variant_compare_prices column_mapping r =
     (if cfg_get (bulk_compare_price_mode cfg) False
        then cfg_get (bulk_compare_price cfg) (PFloat (Fin 0))
      else case variant_compare_prices of
             Some store \<Rightarrow>
               (case store (variant_key r column_mapping) of None \<Rightarrow> PNone | Some price \<Rightarrow> price)
           | None \<Rightarrow> row_get r ''uploaded_compare_price'' PNone)"

text \<open>
  Its last statement then keeps \<open>None\<close> for an empty value and for zero, and the value
  as a float otherwise.
\<close>

definition variant_compare_price ::
  "config \<Rightarrow> (string \<rightharpoonup> pyval) option \<Rightarrow> mapping \<Rightarrow> row \<Rightarrow> py_error + pyval" where
  "variant_compare_price cfg variant_compare_prices column_mapping r =
     (let x = stored_compare_price cfg variant_compare_prices column_mapping r
      in if isna x \<or> x = PStr [] then Inr PNone
         else if \<not> is_zero x then map_sum id PFloat (to_float x)
         else Inr PNone)"

text \<open>
  The compare price of \<open>_create_main_product_row\<close> and of \<open>_create_variant_row\<close>, which
  compute it alike.
\<close>

definition shaped_compare_price :: "pyval \<Rightarrow> py_error + pyval" where
  "shaped_compare_price compare_price =
     (if isna compare_price \<or> compare_price = PStr [] \<or> is_zero compare_price then Inr (PStr [])
      else clean_numeric compare_price (PInt 0))"

text \<open>
  The clean-up of the compare price column at the end of \<open>generate_shopify_csv\<close>. A
  column that holds a string is of object type: its cells become text, and the texts
  nan, NaN and None become empty. A column of numbers keeps them, with an empty
  string for a missing one and for zero; integers beside floats are floats.
\<close>

fun is_text :: "pyval \<Rightarrow> bool" where
  "is_text (PStr s) = True"
| "is_text PNone = True"
| "is_text v = False"

fun is_float :: "pyval \<Rightarrow> bool" where
  "is_float (PFloat f) = True"
| "is_float v = False"

definition object_cell :: "pyval \<Rightarrow> pyval" where
  "object_cell v =
     (let s = (if isna v then [] else py_str v)
      in if s \<in> {''nan'', ''NaN'', ''None''} then PStr [] else PStr s)"

fun as_float_cell :: "pyval \<Rightarrow> pyval" where
  "as_float_cell (PInt n) = PFloat (round_binary64 (of_int n))"
| "as_float_cell v = v"

definition numeric_cell :: "pyval \<Rightarrow> pyval" where
  "numeric_cell v = (if isna v \<or> is_zero v then PStr [] else v)"

definition clean_compare_column :: "pyval list \<Rightarrow> pyval list" where
  "clean_compare_column cells =
     (if \<exists>v \<in> set cells. is_text v then map object_cell cells
      else if \<exists>v \<in> set cells. is_float v then map (numeric_cell \<circ> as_float_cell) cells
      else map numeric_cell cells)"

text \<open>
  The compare price column of the catalog for exploded rows given in the order in which
  they are emitted: each row's price after the overrides, shaped, and the column cleaned.
\<close>

fun shaped_prices ::
  "config \<Rightarrow> (string \<rightharpoonup> pyval) option \<Rightarrow> mapping \<Rightarrow> row list \<Rightarrow> py_error + pyval list" where
  "shaped_prices cfg store column_mapping [] = Inr []"
| "shaped_prices cfg store column_mapping (r # rs) =
     (case variant_compare_price cfg store column_mapping r of
        Inl e \<Rightarrow> Inl e
      | Inr x \<Rightarrow>
          (case shaped_compare_price x of
             Inl e \<Rightarrow> Inl e
           | Inr c \<Rightarrow>
               (case shaped_prices cfg store column_mapping rs of
                  Inl e \<Rightarrow> Inl e
                | Inr cs \<Rightarrow> Inr (c # cs))))"

definition emitted_compare_prices ::
  "config \<Rightarrow> (string \<rightharpoonup> pyval) option \<Rightarrow> mapping \<Rightarrow> row list \<Rightarrow> py_error + pyval list" where
  "emitted_compare_prices cfg store column_mapping rows =
     map_sum id clean_compare_column (shaped_prices cfg store column_mapping rows)"

text \<open>The same column, from the source rows, in the order of the exploded rows.\<close>

definition catalog_compare_prices ::
  "config \<Rightarrow> (string \<rightharpoonup> pyval) option \<Rightarrow> mapping \<Rightarrow> row list \<Rightarrow> py_error + pyval list" where
  "catalog_compare_prices cfg store column_mapping df_raw =
     (case process_variants df_raw column_mapping cfg of
        Inl e \<Rightarrow> Inl e
      | Inr rows \<Rightarrow> emitted_compare_prices cfg store column_mapping rows)"

text \<open>One column of a list of rows.\<close>

definition column_values :: "string \<Rightarrow> py_error + row list \<Rightarrow> py_error + pyval option list" where
  "column_values key rows = map_sum id (map (\<lambda>r. r key)) rows"

subsection \<open>A worked example\<close>

definition example_mapping :: mapping where
  "example_mapping =
     [''Title'' \<mapsto> ''title'', ''Option1 Value'' \<mapsto> ''sizes'', ''Option2 Value'' \<mapsto> ''colors'',
      ''Variant Compare At Price'' \<mapsto> ''mrp'']"

definition example_config :: config where
  "example_config =
     \<lparr>bulk_qty_mode = None, bulk_qty = None, use_expected_qty = None, fallback_qty = None,
      default_qty = None, bulk_compare_price_mode = None, bulk_compare_price = None,
      use_expected_compare_price = None, default_compare_price = None\<rparr>"

definition blank_price_row :: row where
  "blank_price_row =
     [''title'' \<mapsto> PStr ''Shirt'', ''sizes'' \<mapsto> PStr ''M-5, A-B-C'', ''colors'' \<mapsto> PStr ''Red'',
      ''mrp'' \<mapsto> PStr ''  '']"

definition zero_price_row :: row where
  "zero_price_row =
     [''title'' \<mapsto> PStr ''Shirt'', ''sizes'' \<mapsto> PStr ''L'', ''colors'' \<mapsto> PStr ''Red'',
      ''mrp'' \<mapsto> PStr ''0'']"

text \<open>A session store with a price for the variant M, Red of the product Shirt.\<close>

definition example_store :: "string \<rightharpoonup> pyval" where
  "example_store = [''M|Red|Shirt'' \<mapsto> PFloat (Fin 50)]"

text \<open>A row whose compare price cell holds the number 0, not a text.\<close>

definition numeric_zero_price_row :: row where
  "numeric_zero_price_row =
     [''title'' \<mapsto> PStr ''Shirt'', ''sizes'' \<mapsto> PStr ''S'', ''colors'' \<mapsto> PStr ''Red'',
      ''mrp'' \<mapsto> PInt 0]"

section \<open>The column mapper (helpers/column\_mapper.py)\<close>

subsection \<open>Dictionaries\<close>

text \<open>
  A Python dictionary whose order matters is a list of pairs with distinct keys, in
  insertion order: an assignment to a key it has replaces the value in place, and one to
  a new key appends.
\<close>

type_synonym ('k, 'v) dict = "('k \<times> 'v) list"

fun dict_set :: "'k \<Rightarrow> 'v \<Rightarrow> ('k, 'v) dict \<Rightarrow> ('k, 'v) dict" where
  "dict_set k v [] = [(k, v)]"
| "dict_set k v ((k', v') # d) = (if k = k' then (k, v) # d else (k', v') # dict_set k v d)"

text \<open>\<open>d.update(e)\<close>.\<close>

definition dict_update :: "('k, 'v) dict \<Rightarrow> ('k, 'v) dict \<Rightarrow> ('k, 'v) dict" where
  "dict_update d e = foldl (\<lambda>d (k, v). dict_set k v d) d e"

definition dict_keys :: "('k, 'v) dict \<Rightarrow> 'k list" where
  "dict_keys d = map fst d"

definition dict_values :: "('k, 'v) dict \<Rightarrow> 'v list" where
  "dict_values d = map snd d"

subsection \<open>Floats in arithmetic and comparisons\<close>

text \<open>\<open>a > b\<close> on floats: false when either is not-a-number.\<close>

fun float_gt :: "pyfloat \<Rightarrow> pyfloat \<Rightarrow> bool" where
  "float_gt (Fin x) (Fin y) = (y < x)"
| "float_gt (Inf b) (Fin y) = b"
| "float_gt (Fin x) (Inf b) = (\<not> b)"
| "float_gt (Inf b) (Inf c) = (b \<and> \<not> c)"
| "float_gt NaN y = False"
| "float_gt x NaN = False"

text \<open>\<open>max(a, b)\<close> and \<open>min(a, b)\<close>: the first argument unless the second is beyond it.\<close>

definition float_max :: "pyfloat \<Rightarrow> pyfloat \<Rightarrow> pyfloat" where
  "float_max a b = (if float_gt b a then b else a)"

definition float_min :: "pyfloat \<Rightarrow> pyfloat \<Rightarrow> pyfloat" where
  "float_min a b = (if float_gt a b then b else a)"

text \<open>\<open>a + b\<close> on floats: the sum of two finite values, rounded.\<close>

fun float_add :: "pyfloat \<Rightarrow> pyfloat \<Rightarrow> pyfloat" where
  "float_add (Fin x) (Fin y) = round_binary64 (x + y)"
| "float_add (Inf b) (Inf c) = (if b = c then Inf b else NaN)"
| "float_add (Inf b) (Fin y) = Inf b"
| "float_add (Fin x) (Inf c) = Inf c"
| "float_add NaN y = NaN"
| "float_add x NaN = NaN"

text \<open>
  \<open>count / len(values) if values else 0\<close> for two counts: the true division of two
  integers is their quotient, rounded.
\<close>

definition fraction :: "nat \<Rightarrow> nat \<Rightarrow> pyfloat" where
  "fraction count n = (if n = 0 then Fin 0 else round_binary64 (of_nat count / of_nat n))"

subsection \<open>\<open>difflib.SequenceMatcher(None, a, b).ratio()\<close>\<close>

text \<open>
  The longest matching block of two strings, as \<open>find_longest_match\<close> documents it: of
  all blocks of the greatest length the one that starts earliest in \<open>a\<close>, and of those
  the one that starts earliest in \<open>b\<close>; \<open>(0, 0, 0)\<close> when the strings share no
  character. No character is junk, and the second string is shorter than the 200
  characters at which the matcher starts to set popular characters aside: here it is
  always an entry of the table of names below.
\<close>

fun common_prefix :: "string \<Rightarrow> string \<Rightarrow> nat" where
  "common_prefix (x # xs) (y # ys) = (if x = y then Suc (common_prefix xs ys) else 0)"
| "common_prefix xs ys = 0"

fun scan_b :: "string \<Rightarrow> string \<Rightarrow> nat \<Rightarrow> nat \<Rightarrow> nat \<times> nat \<times> nat \<Rightarrow> nat \<times> nat \<times> nat" where
  "scan_b as [] i j best = best"
| "scan_b as (y # ys) i j (besti, bestj, bestsize) =
     scan_b as ys i (Suc j)
       (if bestsize < common_prefix as (y # ys) then (i, j, common_prefix as (y # ys))
        else (besti, bestj, bestsize))"

fun scan_a :: "string \<Rightarrow> string \<Rightarrow> nat \<Rightarrow> nat \<times> nat \<times> nat \<Rightarrow> nat \<times> nat \<times> nat" where
  "scan_a [] b i best = best"
| "scan_a (x # xs) b i best = scan_a xs b (Suc i) (scan_b (x # xs) b i 0 best)"

definition find_longest_match :: "string \<Rightarrow> string \<Rightarrow> nat \<times> nat \<times> nat" where
  "find_longest_match a b = scan_a a b 0 (0, 0, 0)"


text \<open>
  The total size of the matching blocks: the longest block, and the blocks found to its
  left and to its right, each searched only when both strings have a part there.
\<close>

function matches :: "string \<Rightarrow> string \<Rightarrow> nat" where
  "matches a b =
     (case find_longest_match a b of
        (i, j, k) \<Rightarrow>
          if k = 0 then 0
          else k + (if 0 < i \<and> 0 < j then matches (take i a) (take j b) else 0)
                 + (if i + k < length a \<and> j + k < length b
                    then matches (drop (i + k) a) (drop (j + k) b) else 0))"
  by pat_completeness auto
termination
proof (relation "measure (\<lambda>(a, b). length a)", goal_cases)
  case 1
  show ?case by simp
next
  case (2 a b i y j k)
  have B: "\<And>n i as j best. i < n \<Longrightarrow> (snd (snd best) \<noteq> 0 \<longrightarrow> fst best < n) \<Longrightarrow>
             (snd (snd (scan_b as ys i j best)) \<noteq> 0 \<longrightarrow> fst (scan_b as ys i j best) < n)" for ys
  proof (induction ys)
    case Nil
    then show ?case by simp
  next
    case (Cons y ys)
    obtain bi bj bk where best: "best = (bi, bj, bk)" by (cases best)
    show ?case unfolding best scan_b.simps
      by (rule Cons.IH [OF Cons.prems(1)]) (use Cons.prems(2) Cons.prems(1) best in simp)
  qed
  have A: "\<And>n i best. i + length xs \<le> n \<Longrightarrow> (snd (snd best) \<noteq> 0 \<longrightarrow> fst best < n) \<Longrightarrow>
             (snd (snd (scan_a xs b i best)) \<noteq> 0 \<longrightarrow> fst (scan_a xs b i best) < n)" for xs b
  proof (induction xs)
    case Nil
    then show ?case by simp
  next
    case (Cons x xs)
    from Cons.prems(1) have i: "i < n" and s: "Suc i + length xs \<le> n" by simp_all
    show ?case unfolding scan_a.simps
      by (rule Cons.IH [OF s]) (rule B [OF i Cons.prems(2)])
  qed
  have inv: "snd (snd (find_longest_match a b)) \<noteq> 0 \<longrightarrow>
             fst (find_longest_match a b) < length a"
    unfolding find_longest_match_def by (rule A) simp_all
  have flm: "find_longest_match a b = (i, j, k)"
    unfolding 2(2) by (rule 2(1) [symmetric])
  have "i < length a" using inv 2(3) unfolding flm by simp
  then show ?case by simp
next
  case (3 a b i y j k)
  from 3(3,4) have "length a - (i + k) < length a" by arith
  then show ?case by simp
qed

declare matches.simps [simp del]

definition ratio :: "string \<Rightarrow> string \<Rightarrow> pyfloat" where
  "ratio a b =
     (if length a + length b = 0 then Fin 1
      else round_binary64 (of_nat (2 * matches a b) / of_nat (length a + length b)))"


subsection \<open>The table of column names\<close>

text \<open>\<open>ColumnMapper._get_column_variants\<close>: the standard fields, each with its names, in order.\<close>

definition standard_variants :: "(string \<times> string list) list" where
  "standard_variants =
     [(''Handle'',
       [''handle'', ''product_handle'', ''product handle'']),
      (''Title'',
       [''title'', ''product_title'', ''product title'', ''name'', ''product_name'',
        ''product name'']),
      (''Body (HTML)'',
       [''body (html)'', ''body html'', ''description'', ''product_description'',
        ''product description'', ''desc'', ''body'']),
      (''Vendor'',
       [''vendor'', ''brand'', ''manufacturer'', ''supplier'']),
      (''Product Category'',
       [''product category'', ''product_category'', ''category'', ''product_type'']),
      (''Type'',
       [''type'', ''product_type'', ''product type'']),
      (''Tags'',
       [''tags'', ''product_tags'', ''keywords'']),
      (''Published'',
       [''published'', ''status'', ''active'', ''publish_status'', ''publish status'']),
      (''Option1 Name'',
       [''option1 name'', ''option1_name'', ''option 1 name'']),
      (''Option1 Value'',
       [''option1 value'', ''option1_value'', ''option 1 value'', ''size'', ''sizes'']),
      (''Option2 Name'',
       [''option2 name'', ''option2_name'', ''option 2 name'']),
      (''Option2 Value'',
       [''option2 value'', ''option2_value'', ''option 2 value'', ''colour'', ''color'',
        ''colors'', ''colours'']),
      (''Option3 Name'',
       [''option3 name'', ''option3_name'', ''option 3 name'']),
      (''Option3 Value'',
       [''option3 value'', ''option3_value'', ''option 3 value'']),
      (''Variant SKU'',
       [''variant sku'', ''variant_sku'', ''sku'', ''product_sku'', ''product sku'',
        ''product code'', ''product_code'', ''item_code'', ''item code'', ''Product code'',
        ''Porduct Code'']),
      (''Variant Grams'',
       [''variant grams'', ''variant_grams'', ''weight_grams'', ''weight grams'']),
      (''Variant Inventory Tracker'',
       [''variant inventory tracker'', ''variant_inventory_tracker'', ''inventory tracker'',
        ''inventory_tracker'']),
      (''Variant Inventory Qty'',
       [''variant inventory qty'', ''variant_inventory_qty'', ''inventory qty'',
        ''inventory_qty'', ''quantity'', ''stock'', ''stock_quantity'']),
      (''Variant Inventory Policy'',
       [''variant inventory policy'', ''variant_inventory_policy'', ''inventory policy'',
        ''inventory_policy'']),
      (''Variant Fulfillment Service'',
       [''variant fulfillment service'', ''variant_fulfillment_service'',
        ''fulfillment service'', ''fulfillment_service'']),
      (''Variant Price'',
       [''variant price'', ''variant_price'', ''price'', ''unit_price'', ''unit price'',
        ''cost'', ''selling_price'']),
      (''Variant Compare At Price'',
       [''variant compare at price'', ''variant_compare_at_price'', ''compare price'',
        ''compare_price'', ''compare at price'', ''compare_at_price'', ''original_price'',
        ''original price'', ''mrp'']),
      (''Variant Requires Shipping'',
       [''variant requires shipping'', ''variant_requires_shipping'', ''requires shipping'',
        ''requires_shipping'', ''shipping_required'']),
      (''Variant Taxable'',
       [''variant taxable'', ''variant_taxable'', ''taxable'', ''tax_applicable'']),
      (''Variant Barcode'',
       [''variant barcode'', ''variant_barcode'', ''barcode'', ''upc'', ''ean'']),
      (''Variant Image'',
       [''variant image'', ''variant_image'', ''image'', ''product_image'']),
      (''Variant Weight Unit'',
       [''variant weight unit'', ''variant_weight_unit'', ''weight unit'', ''weight_unit'']),
      (''Variant Weight'',
       [''variant weight'', ''variant_weight'', ''weight'']),
      (''Image Src'',
       [''image src'', ''image_src'', ''image url'', ''image_url'', ''image'',
        ''product_image'']),
      (''Image Position'',
       [''image position'', ''image_position'']),
      (''Image Alt Text'',
       [''image alt text'', ''image_alt_text'', ''alt text'', ''alt_text'']),
      (''Gift Card'',
       [''gift card'', ''gift_card'']),
      (''SEO Title'',
       [''seo title'', ''seo_title'', ''meta title'', ''meta_title'']),
      (''SEO Description'',
       [''seo description'', ''seo_description'', ''meta description'', ''meta_description'']),
      (''Google Shopping / Google Product Category'',
       [''google shopping / google product category'', ''google product category'',
        ''google_product_category'']),
      (''Google Shopping / Gender'',
       [''google shopping / gender'', ''gender'', ''target_gender'']),
      (''Google Shopping / Age Group'',
       [''google shopping / age group'', ''age group'', ''age_group'']),
      (''Google Shopping / MPN'',
       [''google shopping / mpn'', ''mpn'', ''manufacturer_part_number'']),
      (''Google Shopping / AdWords Grouping'',
       [''google shopping / adwords grouping'', ''adwords grouping'', ''adwords_grouping'']),
      (''Google Shopping / AdWords Labels'',
       [''google shopping / adwords labels'', ''adwords labels'', ''adwords_labels'']),
      (''Google Shopping / Condition'',
       [''google shopping / condition'', ''condition'', ''product_condition'']),
      (''Google Shopping / Custom Product'',
       [''google shopping / custom product'', ''custom product'', ''custom_product'']),
      (''Google Shopping / Custom Label 0'',
       [''google shopping / custom label 0'', ''custom label 0'', ''custom_label_0'']),
      (''Google Shopping / Custom Label 1'',
       [''google shopping / custom label 1'', ''custom label 1'', ''custom_label_1'']),
      (''Google Shopping / Custom Label 2'',
       [''google shopping / custom label 2'', ''custom label 2'', ''custom_label_2'']),
      (''Google Shopping / Custom Label 3'',
       [''google shopping / custom label 3'', ''custom label 3'', ''custom_label_3'']),
      (''Google Shopping / Custom Label 4'',
       [''google shopping / custom label 4'', ''custom label 4'', ''custom_label_4'']),
      (''Cost per item'',
       [''cost per item'', ''cost_per_item'', ''cost'', ''wholesale_price'',
        ''wholesale price'']),
      (''Price / International'',
       [''price / international'', ''price_international'', ''international_price'']),
      (''Compare At Price / International'',
       [''compare at price / international'', ''compare_at_price_international'',
        ''international_compare_price'']),
      (''Status'',
       [''status'', ''product_status'', ''active'', ''draft'', ''archived'']),
      (''no of components'',
       [''no of components'', ''no_of_components'', ''components'', ''number_of_components'',
        ''component_count'']),
      (''fabric'',
       [''fabric'', ''material'', ''fabric_type'', ''fabric type'']),
      (''celebs name'',
       [''celebs name'', ''celebs_name'', ''celebrity_name'', ''celebrity name'']),
      (''fit'',
       [''fit'', ''fitting'', ''size_fit'', ''size fit'']),
      (''sizes info'',
       [''sizes info'', ''sizes_info'', ''size_info'', ''size info'']),
      (''delivery time'',
       [''delivery time'', ''delivery_time'', ''shipping_time'', ''shipping time'']),
      (''wash care'',
       [''wash care'', ''wash_care'', ''care_instructions'', ''care instructions'']),
      (''technique used'',
       [''technique used'', ''technique_used'', ''manufacturing_technique'']),
      (''embroidery details'',
       [''embroidery details'', ''embroidery_details'', ''embroidery''])]"

subsection \<open>The table to map\<close>

text \<open>
  A data frame: the labels of its columns, in order, and the cells under a label. The
  labels are strings and each names one column, as they do in a frame read from a file.
\<close>

record frame =
  frame_columns :: "string list"
  frame_cells :: "string \<Rightarrow> pyval list"

subsection \<open>The exact pass\<close>

text \<open>\<open>{col.lower().strip(): col for col in df.columns}\<close>.\<close>

definition actual_columns_lower :: "frame \<Rightarrow> (string, string) dict" where
  "actual_columns_lower df =
     foldl (\<lambda>d col. dict_set (strip (lower col)) col d) [] (frame_columns df)"

text \<open>The inner loop of \<open>_exact_match\<close>: the column of the first name the frame has.\<close>

fun first_variant :: "(string, string) dict \<Rightarrow> string list \<Rightarrow> string option" where
  "first_variant d [] = None"
| "first_variant d (variant # variants) =
     (case map_of d (lower variant) of
        Some col \<Rightarrow> Some col
      | None \<Rightarrow> first_variant d variants)"

definition exact_match :: "frame \<Rightarrow> (string, string) dict" where
  "exact_match df =
     foldl (\<lambda>mapping (standard_name, variants).
              case first_variant (actual_columns_lower df) variants of
                None \<Rightarrow> mapping
              | Some col \<Rightarrow> dict_set standard_name col mapping)
       [] standard_variants"

subsection \<open>The fuzzy pass\<close>

text \<open>\<open>re.sub(r'[_\-\s]+', '', s)\<close>: underscores, hyphens and white space removed.\<close>

definition clean_name :: "string \<Rightarrow> string" where
  "clean_name s = filter (\<lambda>c. c \<noteq> CHR ''_'' \<and> c \<noteq> CHR ''-'' \<and> \<not> is_space c) s"

definition calculate_similarity :: "string \<Rightarrow> string \<Rightarrow> pyfloat" where
  "calculate_similarity str1 str2 =
     (let str1_clean = clean_name str1;
          str2_clean = clean_name str2;
          similarity = ratio str1_clean str2_clean
      in if contains str2_clean str1_clean \<or> contains str1_clean str2_clean
         then float_max similarity (round_binary64 (8 / 10))
         else similarity)"

text \<open>
  The two loops of \<open>_find_best_fuzzy_match\<close>, over the names of a field and over the
  fields, with the best score and the best field so far.
\<close>

fun scan_variants ::
  "string \<Rightarrow> string \<Rightarrow> string list \<Rightarrow> pyfloat \<times> string option \<Rightarrow> pyfloat \<times> string option" where
  "scan_variants column standard_name [] best = best"
| "scan_variants column standard_name (variant # variants) (best_score, best_standard) =
     scan_variants column standard_name variants
       (let similarity = calculate_similarity (lower column) (lower variant)
        in if float_gt similarity best_score \<and> float_gt similarity (round_binary64 (7 / 10))
           then (similarity, Some standard_name)
           else (best_score, best_standard))"

fun scan_standards ::
  "string \<Rightarrow> (string, string) dict \<Rightarrow> (string \<times> string list) list \<Rightarrow>
   pyfloat \<times> string option \<Rightarrow> pyfloat \<times> string option" where
  "scan_standards column existing_mapping [] best = best"
| "scan_standards column existing_mapping ((standard_name, variants) # rest) best =
     scan_standards column existing_mapping rest
       (if standard_name \<in> set (dict_keys existing_mapping) then best
        else scan_variants column standard_name variants best)"

definition find_best_fuzzy_match ::
  "string \<Rightarrow> (string, string) dict \<Rightarrow> (string \<times> pyfloat) option" where
  "find_best_fuzzy_match column existing_mapping =
     (case scan_standards column existing_mapping standard_variants (Fin 0, None) of
        (best_score, Some best_standard) \<Rightarrow>
          if best_standard \<noteq> [] then Some (best_standard, best_score) else None
      | (best_score, None) \<Rightarrow> None)"

definition fuzzy_match ::
  "string list \<Rightarrow> (string, string) dict \<Rightarrow> (string, string) dict \<times> (string, pyfloat) dict" where
  "fuzzy_match unmapped_columns existing_mapping =
     foldl (\<lambda>(fuzzy_mapping, confidence_scores) col.
              case find_best_fuzzy_match col existing_mapping of
                None \<Rightarrow> (fuzzy_mapping, confidence_scores)
              | Some (standard_name, confidence) \<Rightarrow>
                  (dict_set standard_name col fuzzy_mapping,
                   dict_set col confidence confidence_scores))
       ([], []) unmapped_columns"

subsection \<open>The content pass\<close>

text \<open>\<open>_is_price_column\<close>; of the currency signs of the pattern the ASCII one is here.\<close>

definition is_price :: "string \<Rightarrow> bool" where
  "is_price v =
     (case float_of_str (filter (\<lambda>c. c \<noteq> CHR ''$'' \<and> c \<noteq> CHR '','' \<and> \<not> is_space c) v) of
        None \<Rightarrow> False
      | Some num \<Rightarrow> float_gt num (Fin 0) \<and> float_gt (Fin 100000) num)"

definition is_price_column :: "string list \<Rightarrow> pyfloat" where
  "is_price_column vs = fraction (length (filter is_price vs)) (length vs)"

definition status_words :: "string list" where
  "status_words =
     [''active'', ''inactive'', ''draft'', ''published'', ''unpublished'', ''true'', ''false'',
      ''yes'', ''no'']"

definition is_status_column :: "string list \<Rightarrow> pyfloat" where
  "is_status_column vs = fraction (length (filter (\<lambda>v. v \<in> set status_words) vs)) (length vs)"

text \<open>
  The patterns of \<open>_is_size_column\<close>. A word character is a letter, a digit or an
  underscore, and \<open>\b\<close> holds where exactly one of the two neighbours is one.
\<close>

definition word_char :: "char \<Rightarrow> bool" where
  "word_char c \<longleftrightarrow>
     is_digit c \<or> c \<in> set upper_letters \<or> c \<in> set lower_letters \<or> c = CHR ''_''"

definition at_boundary :: "char option \<Rightarrow> string \<Rightarrow> bool" where
  "at_boundary prev s \<longleftrightarrow>
     (case prev of None \<Rightarrow> False | Some c \<Rightarrow> word_char c) \<noteq>
     (case s of [] \<Rightarrow> False | c # cs \<Rightarrow> word_char c)"

text \<open>\<open>re.search\<close>: the pattern matches at some position, the character before it known.\<close>

fun re_search :: "(char option \<Rightarrow> string \<Rightarrow> bool) \<Rightarrow> char option \<Rightarrow> string \<Rightarrow> bool" where
  "re_search p prev [] = p prev []"
| "re_search p prev (c # cs) = (p prev (c # cs) \<or> re_search p (Some c) cs)"

text \<open>\<open>\b(w1|w2|...)\b\<close> at a position.\<close>

definition words_pattern :: "string list \<Rightarrow> char option \<Rightarrow> string \<Rightarrow> bool" where
  "words_pattern ws prev s \<longleftrightarrow>
     at_boundary prev s \<and>
     (\<exists>w \<in> set ws. w \<noteq> [] \<and> starts_with w s \<and> at_boundary (Some (last w)) (drop (length w) s))"

text \<open>\<open>\b\d{1,2}\b\<close> at a position.\<close>

definition digits_pattern :: "char option \<Rightarrow> string \<Rightarrow> bool" where
  "digits_pattern prev s \<longleftrightarrow>
     at_boundary prev s \<and>
     (case s of
        [] \<Rightarrow> False
      | d1 # r1 \<Rightarrow>
          is_digit d1 \<and>
          (at_boundary (Some d1) r1 \<or>
           (case r1 of [] \<Rightarrow> False | d2 # r2 \<Rightarrow> is_digit d2 \<and> at_boundary (Some d2) r2)))"

text \<open>\<open>\d+\b\<close> and \<open>-\d+\b\<close> at a position.\<close>

fun digits_then_boundary :: "string \<Rightarrow> bool" where
  "digits_then_boundary [] = False"
| "digits_then_boundary (d # r) =
     (is_digit d \<and> (at_boundary (Some d) r \<or> digits_then_boundary r))"

definition hyphen_quantity :: "string \<Rightarrow> bool" where
  "hyphen_quantity s \<longleftrightarrow>
     (case s of [] \<Rightarrow> False | c # r \<Rightarrow> c = CHR ''-'' \<and> digits_then_boundary r)"

text \<open>\<open>\b\d{1,2}-\d+\b\<close> at a position.\<close>

definition size_quantity_pattern :: "char option \<Rightarrow> string \<Rightarrow> bool" where
  "size_quantity_pattern prev s \<longleftrightarrow>
     at_boundary prev s \<and>
     (case s of
        [] \<Rightarrow> False
      | d1 # r1 \<Rightarrow>
          is_digit d1 \<and>
          (hyphen_quantity r1 \<or>
           (case r1 of [] \<Rightarrow> False | d2 # r2 \<Rightarrow> is_digit d2 \<and> hyphen_quantity r2)))"

definition size_patterns :: "(char option \<Rightarrow> string \<Rightarrow> bool) list" where
  "size_patterns =
     [words_pattern [''xs'', ''s'', ''m'', ''l'', ''xl'', ''xxl'', ''xxxl''],
      digits_pattern,
      words_pattern [''small'', ''medium'', ''large''],
      size_quantity_pattern]"

definition is_size_column :: "string list \<Rightarrow> pyfloat" where
  "is_size_column vs =
     fraction (length (filter (\<lambda>v. \<exists>pattern \<in> set size_patterns. re_search pattern None v) vs))
       (length vs)"

definition color_words :: "string list" where
  "color_words =
     [''red'', ''blue'', ''green'', ''yellow'', ''black'', ''white'', ''pink'', ''purple'',
      ''orange'', ''brown'', ''gray'', ''grey'', ''navy'', ''maroon'', ''teal'', ''cyan'']"

definition is_color_column :: "string list \<Rightarrow> pyfloat" where
  "is_color_column vs =
     fraction (length (filter (\<lambda>v. \<exists>color \<in> set color_words. contains color v) vs)) (length vs)"

definition category_words :: "string list" where
  "category_words =
     [''shirt'', ''dress'', ''pants'', ''jeans'', ''jacket'', ''shoes'', ''bag'', ''jewelry'',
      ''clothing'', ''apparel'', ''accessories'', ''footwear'']"

definition is_category_column :: "string list \<Rightarrow> pyfloat" where
  "is_category_column vs =
     fraction (length (filter (\<lambda>v. \<exists>cat \<in> set category_words. contains cat v) vs)) (length vs)"

text \<open>\<open>_is_code_column\<close>: \<open>^[A-Za-z0-9_-]+$\<close> on the trimmed value, of more than two characters.\<close>

definition name_hints :: "string list" where
  "name_hints = [''sku'', ''code'', ''id'', ''number'', ''ref'']"

definition is_code :: "string \<Rightarrow> bool" where
  "is_code v \<longleftrightarrow>
     strip v \<noteq> [] \<and> list_all (\<lambda>c. word_char c \<or> c = CHR ''-'') (strip v) \<and> 2 < length (strip v)"

definition is_code_column :: "string list \<Rightarrow> string \<Rightarrow> pyfloat" where
  "is_code_column vs column_name =
     (let name_bonus = (if \<exists>hint \<in> set name_hints. contains hint column_name
                        then round_binary64 (3 / 10) else Fin 0);
          base_score = fraction (length (filter is_code vs)) (length vs)
      in float_min (Fin 1) (float_add base_score name_bonus))"

text \<open>\<open>_detect_column_type\<close>: the first category whose score passes its threshold.\<close>

definition detect_column_type :: "string list \<Rightarrow> string \<Rightarrow> string option \<times> pyfloat" where
  "detect_column_type sample_values column_name =
     (let values_lower = map (\<lambda>v. strip (lower v)) (filter (\<lambda>v. strip v \<noteq> []) sample_values)
      in if float_gt (is_price_column values_lower) (round_binary64 (7 / 10))
           then (Some ''variant price'', round_binary64 (8 / 10))
         else if float_gt (is_status_column values_lower) (round_binary64 (6 / 10))
           then (Some ''published'', round_binary64 (7 / 10))
         else if float_gt (is_size_column values_lower) (round_binary64 (6 / 10))
           then (Some ''size'', round_binary64 (7 / 10))
         else if float_gt (is_color_column values_lower) (round_binary64 (6 / 10))
           then (Some ''colour'', round_binary64 (7 / 10))
         else if float_gt (is_category_column values_lower) (round_binary64 (5 / 10))
           then (Some ''product category'', round_binary64 (6 / 10))
         else if float_gt (is_code_column values_lower (lower column_name)) (round_binary64 (7 / 10))
           then (Some ''product code'', round_binary64 (8 / 10))
         else (None, Fin 0))"

text \<open>\<open>df[col].dropna().astype(str).head(10).tolist()\<close>.\<close>

definition sample_values_of :: "frame \<Rightarrow> string \<Rightarrow> string list" where
  "sample_values_of df col = take 10 (map py_str (filter (\<lambda>v. \<not> isna v) (frame_cells df col)))"

definition content_analysis ::
  "frame \<Rightarrow> string list \<Rightarrow> (string, string) dict \<Rightarrow>
   (string, string) dict \<times> (string, pyfloat) dict" where
  "content_analysis df unmapped_columns existing_mapping =
     foldl (\<lambda>(content_mapping, confidence_scores) col.
              if sample_values_of df col = [] then (content_mapping, confidence_scores)
              else case detect_column_type (sample_values_of df col) col of
                     (None, confidence) \<Rightarrow> (content_mapping, confidence_scores)
                   | (Some detected_type, confidence) \<Rightarrow>
                       if detected_type \<noteq> [] \<and> float_gt confidence (round_binary64 (6 / 10)) \<and>
                          detected_type \<notin> set (dict_keys existing_mapping)
                       then (dict_set detected_type col content_mapping,
                             dict_set col confidence confidence_scores)
                       else (content_mapping, confidence_scores))
       ([], []) unmapped_columns"

subsection \<open>The analysis\<close>

text \<open>
  The steps of \<open>analyze_columns\<close>: the columns the exact pass left, the fuzzy pass on them,
  the columns the fuzzy pass left, and the content pass on those; the content pass is
  given the mapping of the exact pass.
\<close>

definition unmapped_after_exact :: "frame \<Rightarrow> string list" where
  "unmapped_after_exact df =
     filter (\<lambda>col. col \<notin> set (dict_values (exact_match df))) (frame_columns df)"

definition fuzzy_pass :: "frame \<Rightarrow> (string, string) dict \<times> (string, pyfloat) dict" where
  "fuzzy_pass df = fuzzy_match (unmapped_after_exact df) (exact_match df)"

definition remaining_unmapped :: "frame \<Rightarrow> string list" where
  "remaining_unmapped df =
     filter (\<lambda>col. col \<notin> set (dict_values (fst (fuzzy_pass df)))) (unmapped_after_exact df)"

definition content_pass :: "frame \<Rightarrow> (string, string) dict \<times> (string, pyfloat) dict" where
  "content_pass df = content_analysis df (remaining_unmapped df) (exact_match df)"

text \<open>The scores of the exact pass: 1.0 for every column it mapped.\<close>

definition exact_confidence :: "(string, string) dict \<Rightarrow> (string, pyfloat) dict" where
  "exact_confidence base =
     foldl (\<lambda>scores (standard_name, actual_column). dict_set actual_column (Fin 1) scores) [] base"

record mapping_result =
  base_mapping :: "(string, string) dict"
  unmapped_columns :: "string list"
  confidence_scores :: "(string, pyfloat) dict"

definition analyze_columns :: "frame \<Rightarrow> mapping_result" where
  "analyze_columns df =
     (let final_mapping =
            dict_update (dict_update (exact_match df) (fst (fuzzy_pass df))) (fst (content_pass df));
          scores =
            dict_update (dict_update (exact_confidence (exact_match df)) (snd (fuzzy_pass df)))
              (snd (content_pass df))
      in \<lparr>base_mapping = final_mapping,
          unmapped_columns =
            filter (\<lambda>col. col \<notin> set (dict_values final_mapping)) (frame_columns df),
          confidence_scores = scores\<rparr>)"


subsection \<open>Worked examples\<close>

text \<open>A frame with the one column \<open>product-title\<close>, without rows.\<close>

definition title_frame :: frame where
  "title_frame = \<lparr>frame_columns = [''product-title''], frame_cells = (\<lambda>col. [])\<rparr>"

text \<open>A frame with a column of a standard name and a column of colours.\<close>

definition colour_frame :: frame where
  "colour_frame =
     \<lparr>frame_columns = [''Title'', ''qq''],
      frame_cells = (\<lambda>col. if col = ''qq'' then [PStr ''Red'', PNone, PStr ''navy blue'']
                           else [PStr ''Shirt'', PStr ''Dress'', PStr ''Jeans''])\<rparr>"

section \<open>Facts about strings and numbers\<close>

lemma set_strip_subset: "set (strip s) \<subseteq> set s"
proof -
  have "set (strip s) \<subseteq> set (lstrip s)"
    unfolding strip_def rstrip_def using set_dropWhileD by fastforce
  moreover have "set (lstrip s) \<subseteq> set s"
    unfolding lstrip_def using set_dropWhileD by fastforce
  ultimately show ?thesis by blast
qed

lemma split_on_not_Nil: "split_on d s \<noteq> []"
  by (induction s) (auto split: list.splits)

lemma split_on_no_sep: "d \<notin> set r \<Longrightarrow> split_on d r = [r]"
  by (induction r) auto

lemma split_on_append: "d \<notin> set l \<Longrightarrow> split_on d (l @ d # r) = l # split_on d r"
proof (induction l)
  case Nil
  then show ?case by simp
next
  case (Cons a l)
  then have "a \<noteq> d" and "split_on d (l @ d # r) = l # split_on d r" by auto
  then show ?case by simp
qed

lemma count_one_parts:
  assumes "count_list (l @ d # r) d = 1"
  shows "d \<notin> set l \<and> d \<notin> set r"
proof -
  from assms have "count_list l d = 0 \<and> count_list r d = 0" by simp
  then show ?thesis by (simp add: count_list_0_iff)
qed

lemma lower_char_hyphen: "lower_char CHR ''-'' = CHR ''-''"
  by (simp add: lower_char_def upper_letters_def lower_letters_def)

lemma lower_custom_no_hyphen:
  assumes "lower s = ''custom''"
  shows "CHR ''-'' \<notin> set s"
proof
  assume "CHR ''-'' \<in> set s"
  then have "lower_char CHR ''-'' \<in> set (lower s)"
    unfolding lower_def by simp
  with assms show False
    by (simp add: lower_char_hyphen)
qed

lemma round_half_even_nonneg: "0 \<le> x \<Longrightarrow> 0 \<le> round_half_even x"
  by (auto simp: round_half_even_def Let_def)

lemma round_binary64_nonneg:
  assumes "0 \<le> r" and "round_binary64 r = Fin x"
  shows "0 \<le> x"
proof (cases "r = 0")
  case True
  with assms show ?thesis by (simp add: round_binary64_def)
next
  case False
  define q :: rat where "q = 2 powi (max (floor_log2 \<bar>r\<bar>) (- 1022) - 52)"
  have q: "0 < q" unfolding q_def by (simp add: zero_less_power_int)
  from assms(1) have "0 \<le> \<bar>r\<bar> / q" using q by simp
  then have "0 \<le> round_half_even (\<bar>r\<bar> / q)" by (rule round_half_even_nonneg)
  then have v: "0 \<le> (of_int (round_half_even (\<bar>r\<bar> / q)) :: rat) * q" using q by simp
  from assms False have "x = of_int (round_half_even (\<bar>r\<bar> / q)) * q"
    by (auto simp: round_binary64_def Let_def q_def split: if_splits)
  with v show ?thesis by simp
qed

lemma digit_val_nonneg: "0 \<le> digit_val c"
  by (simp add: digit_val_def split: option.splits if_splits)

lemma foldl_digits_nonneg: "0 \<le> a \<Longrightarrow> 0 \<le> foldl (\<lambda>a c. 10 * a + digit_val c) a s"
proof (induction s arbitrary: a)
  case Nil
  then show ?case by simp
next
  case (Cons c s)
  have "0 \<le> 10 * a + digit_val c"
    using Cons.prems digit_val_nonneg [of c] by linarith
  then have "0 \<le> foldl (\<lambda>a c. 10 * a + digit_val c) (10 * a + digit_val c) s"
    by (rule Cons.IH)
  then show ?case by simp
qed

lemma digitpart_val_nonneg: "0 \<le> digitpart_val p"
  by (simp add: digitpart_val_def digits_val_def foldl_digits_nonneg)

lemma parse_mantissa_nonneg:
  assumes "parse_mantissa s = Some (n, k)"
  shows "0 \<le> n"
proof -
  define ip where "ip = takeWhile (\<lambda>c. c \<noteq> CHR ''.'') s"
  define rest where "rest = dropWhile (\<lambda>c. c \<noteq> CHR ''.'') s"
  have pm: "parse_mantissa s =
     (case rest of
           [] \<Rightarrow> if valid_digitpart ip then Some (digitpart_val ip, 0) else None
         | _ # fp \<Rightarrow>
             if (ip = [] \<or> valid_digitpart ip) \<and> (fp = [] \<or> valid_digitpart fp) \<and>
                \<not> (ip = [] \<and> fp = [])
             then Some (digitpart_val ip * 10 ^ digitpart_len fp + digitpart_val fp,
                        digitpart_len fp)
             else None)"
    unfolding parse_mantissa_def ip_def rest_def Let_def ..
  show ?thesis
  proof (cases rest)
    case Nil
    with assms pm have "n = digitpart_val ip" by (auto split: if_splits)
    then show ?thesis by (simp add: digitpart_val_nonneg)
  next
    case (Cons c fp)
    with assms pm have "n = digitpart_val ip * 10 ^ digitpart_len fp + digitpart_val fp"
      by (auto split: if_splits)
    then show ?thesis by (simp add: digitpart_val_nonneg)
  qed
qed

lemma parse_decimal_nonneg:
  assumes "parse_decimal s = Some r"
  shows "0 \<le> r"
proof (cases "parse_mantissa (takeWhile (\<lambda>c. \<not> is_exp_char c) s)")
  case None
  with assms show ?thesis by (simp add: parse_decimal_def Let_def)
next
  case (Some p)
  obtain n k where p: "p = (n, k)" by (cases p)
  with Some have "0 \<le> n" using parse_mantissa_nonneg by blast
  then have "\<And>e. 0 \<le> of_int n * (10::rat) powi e" by (simp add: zero_le_power_int)
  with assms Some p show ?thesis
    by (auto simp: parse_decimal_def Let_def split: option.splits list.splits)
qed

lemma parse_unsigned_nonneg: "parse_unsigned s = Some (Fin x) \<Longrightarrow> 0 \<le> x"
  by (auto simp: parse_unsigned_def split: if_splits
           dest: parse_decimal_nonneg round_binary64_nonneg)

lemma float_of_str_nonneg:
  assumes "float_of_str s = Some (Fin x)" and "CHR ''-'' \<notin> set s"
  shows "0 \<le> x"
proof (cases "strip s")
  case Nil
  with assms show ?thesis by (simp add: float_of_str_def)
next
  case (Cons c cs)
  then have "c \<in> set s" using set_strip_subset [of s] by auto
  with assms(2) have "c \<noteq> CHR ''-''" by auto
  with assms(1) Cons show ?thesis
    by (auto simp: float_of_str_def split: if_splits dest: parse_unsigned_nonneg)
qed

lemma py_trunc_nonneg: "0 \<le> x \<Longrightarrow> py_trunc x = \<lfloor>x\<rfloor> \<and> 0 \<le> py_trunc x"
  by (simp add: py_trunc_def)

lemma one_hyphen_parts:
  assumes "count_list s CHR ''-'' = 1" and "s = l @ CHR ''-'' # r"
  shows "CHR ''-'' \<notin> set l \<and> CHR ''-'' \<notin> set r"
  using assms count_one_parts [of l "CHR ''-''" r] by metis

lemma split_on_one_hyphen:
  assumes "CHR ''-'' \<notin> set l \<and> CHR ''-'' \<notin> set r"
  shows "split_on CHR ''-'' (l @ CHR ''-'' # r) = [l, r]"
  using assms by (simp add: split_on_append split_on_no_sep)

lemma parse_one_hyphen:
  assumes "lower (strip t) \<noteq> ''custom''" and "count_list (strip t) CHR ''-'' = 1"
    and "split_on CHR ''-'' (strip t) = [l, r]"
  shows "parse_size_and_quantity t =
           (case float_of_str (strip r) of
              None \<Rightarrow> Inr (strip t, 0)
            | Some f \<Rightarrow>
                (case int_of_float f of
                   Inl ValueError \<Rightarrow> Inr (strip t, 0)
                 | Inl e \<Rightarrow> Inl e
                 | Inr q \<Rightarrow> Inr (strip l, q)))"
proof -
  from assms(2) have "CHR ''-'' \<in> set (strip t)"
    by (metis count_list_0_iff zero_neq_one)
  with assms show ?thesis
    unfolding parse_size_and_quantity_def Let_def by simp
qed

lemma parse_no_single_hyphen:
  assumes "lower (strip t) \<noteq> ''custom''" and "count_list (strip t) CHR ''-'' \<noteq> 1"
  shows "parse_size_and_quantity t = Inr (strip t, 0)"
  using assms unfolding parse_size_and_quantity_def Let_def by simp

section \<open>The size and quantity parser: results\<close>

text \<open>
  C6. A token equal to "custom" in any letter case parses to ("Custom", 0). A token with
  exactly one hyphen whose right-hand part is a number parses to the trimmed left part and
  the number cut down to an integer: the quantity is never negative and is the integer
  part of the number, not the nearest integer. Any other token with no hyphen, or with
  two or more, parses to the whole (trimmed) token with quantity 0.
\<close>

theorem parse_size_and_quantity_cases:
  "(lower (strip t) = ''custom'' \<longrightarrow> parse_size_and_quantity t = Inr (''Custom'', 0)) \<and>
   (count_list (strip t) CHR ''-'' = 1 \<and> strip t = l @ CHR ''-'' # r \<and>
    float_of_str (strip r) = Some (Fin x) \<longrightarrow>
      parse_size_and_quantity t = Inr (strip l, py_trunc x) \<and>
      0 \<le> py_trunc x \<and> of_int (py_trunc x) \<le> x \<and> x < of_int (py_trunc x) + 1) \<and>
   (lower (strip t) \<noteq> ''custom'' \<and> count_list (strip t) CHR ''-'' \<noteq> 1 \<longrightarrow>
      parse_size_and_quantity t = Inr (strip t, 0))"
proof -
  have custom: "lower (strip t) = ''custom'' \<longrightarrow>
                parse_size_and_quantity t = Inr (''Custom'', 0)"
    unfolding parse_size_and_quantity_def Let_def by simp
  have opaque: "lower (strip t) \<noteq> ''custom'' \<and> count_list (strip t) CHR ''-'' \<noteq> 1 \<longrightarrow>
                parse_size_and_quantity t = Inr (strip t, 0)"
    using parse_no_single_hyphen by blast
  have single: "parse_size_and_quantity t = Inr (strip l, py_trunc x) \<and>
      0 \<le> py_trunc x \<and> of_int (py_trunc x) \<le> x \<and> x < of_int (py_trunc x) + 1"
    if cnt: "count_list (strip t) CHR ''-'' = 1"
      and eq: "strip t = l @ CHR ''-'' # r"
      and fl: "float_of_str (strip r) = Some (Fin x)"
  proof -
    have parts: "CHR ''-'' \<notin> set l \<and> CHR ''-'' \<notin> set r"
      using cnt eq by (rule one_hyphen_parts)
    have sp: "split_on CHR ''-'' (strip t) = [l, r]"
      using split_on_one_hyphen [OF parts] eq by metis
    have "CHR ''-'' \<in> set (strip t)"
      using cnt by (metis count_list_0_iff zero_neq_one)
    then have nc: "lower (strip t) \<noteq> ''custom''"
      using lower_custom_no_hyphen by blast
    have "CHR ''-'' \<notin> set (strip r)"
      using parts set_strip_subset [of r] by blast
    with fl have x: "0 \<le> x" by (rule float_of_str_nonneg)
    have res: "parse_size_and_quantity t = Inr (strip l, py_trunc x)"
      using parse_one_hyphen [OF nc cnt sp] fl by simp
    have tr: "py_trunc x = \<lfloor>x\<rfloor>" using x by (simp add: py_trunc_def)
    have "0 \<le> \<lfloor>x\<rfloor> \<and> of_int \<lfloor>x\<rfloor> \<le> x \<and> x < of_int \<lfloor>x\<rfloor> + 1"
      using x floor_correct [of x] by auto
    with res tr show ?thesis by simp
  qed
  show ?thesis using custom opaque single by blast
qed

theorem parse_size_and_quantity_cases_witness:
  "parse_size_and_quantity '' CuStOm '' = Inr (''Custom'', 0) \<and>
   parse_size_and_quantity ''M - 5.75'' = Inr (''M'', 5) \<and>
   parse_size_and_quantity ''A-B-C'' = Inr (''A-B-C'', 0)"
proof -
  have a: "lower (strip '' CuStOm '') = ''custom''" by code_simp
  have b: "count_list (strip ''M - 5.75'') CHR ''-'' = 1 \<and>
           strip ''M - 5.75'' = ''M '' @ CHR ''-'' # '' 5.75'' \<and>
           float_of_str (strip '' 5.75'') = Some (Fin (23 / 4))" by code_simp
  have c: "lower (strip ''A-B-C'') \<noteq> ''custom'' \<and> count_list (strip ''A-B-C'') CHR ''-'' \<noteq> 1"
    by code_simp
  have s1: "strip ''M '' = ''M''" by code_simp
  have s2: "py_trunc (23 / 4) = 5" by code_simp
  have s3: "strip ''A-B-C'' = ''A-B-C''" by code_simp
  have r1: "parse_size_and_quantity '' CuStOm '' = Inr (''Custom'', 0)"
    using parse_size_and_quantity_cases [of "'' CuStOm ''" "[]" "[]" 0] a by blast
  have r2: "parse_size_and_quantity ''M - 5.75'' = Inr (strip ''M '', py_trunc (23 / 4))"
    using parse_size_and_quantity_cases [of "''M - 5.75''" "''M ''" "'' 5.75''" "23 / 4"] b
    by blast
  have r3: "parse_size_and_quantity ''A-B-C'' = Inr (strip ''A-B-C'', 0)"
    using parse_size_and_quantity_cases [of "''A-B-C''" "[]" "[]" 0] c by blast
  show ?thesis
    unfolding r1 r2 r3 s1 s2 s3 by simp
qed

text \<open>
  C9. The token "M-inf" has one hyphen and a right-hand part that \<open>float\<close> accepts as an
  infinity; \<open>int\<close> of an infinity raises \<open>OverflowError\<close>, which the handler for
  \<open>ValueError\<close> does not catch, so the parser raises instead of returning ("M-inf", 0).
\<close>

theorem parse_size_and_quantity_inf_raises:
  "parse_size_and_quantity ''M-inf'' = Inl OverflowError"
  by code_simp


section \<open>The description compositor: results\<close>

lemma wm_single_element:
  assumes "el_column e = Some c" and "c \<noteq> []" and "r c = Some v"
    and "wm_clean_value v \<noteq> []"
  shows "generate_description_html [e] r =
           wm_fragment (get_html_tag e) (get_label e) (wm_clean_value v)"
  using assms
  by (simp add: generate_description_html_def get_column_def Let_def dom_def)

text \<open>
  The workflow manager renders an element with a non-blank label and tag \<open>p\<close> as label and
  value inside one paragraph, and with any other tag name as the tagged label followed by
  the value, inside an enclosing paragraph.
\<close>

lemma workflow_description_fragment:
  assumes "el_column e = Some c" and "c \<noteq> []" and "r c = Some v"
    and "wm_clean_value v \<noteq> []"
    and "el_label e = Some l" and "l \<noteq> []" and "strip l \<noteq> []"
    and "el_html_tag e = Some t"
  shows "(t = ''p'' \<longrightarrow>
            generate_description_html [e] r = ''<p>'' @ l @ '': '' @ wm_clean_value v @ ''</p>'') \<and>
         (t \<notin> {''none'', ''br'', ''li'', ''p''} \<longrightarrow>
            generate_description_html [e] r =
              ''<p><'' @ t @ ''>'' @ l @ '' : </'' @ t @ ''> '' @ wm_clean_value v @ ''</p>'')"
  using assms wm_single_element [of e c r v]
  by (simp add: wm_fragment_def get_label_def get_html_tag_def)

lemma workflow_description_example:
  "generate_description_html
     [\<lparr>el_column = Some ''fabric'', el_label = Some ''Fabric'', el_html_tag = Some ''p'',
       el_order = Some 0\<rparr>]
     [''fabric'' \<mapsto> PStr ''Cotton''] = ''<p>Fabric: Cotton</p>'' \<and>
   generate_description_html
     [\<lparr>el_column = Some ''fabric'', el_label = Some ''Fabric'', el_html_tag = Some ''h3'',
       el_order = Some 0\<rparr>]
     [''fabric'' \<mapsto> PStr ''Cotton''] = ''<p><h3>Fabric : </h3> Cotton</p>''"
  by code_simp

text \<open>
  C2. The description generator, whose result is the one written to the catalog, renders
  the element \<open>{column: fabric, label: Fabric, html_tag: p}\<close> with the value "Cotton" as
  a paragraph tag around the label only, inside another paragraph, and not as
  \<open><p>Fabric: Cotton</p>\<close>.
\<close>

theorem description_generator_p_wraps_label_only:
  "generate_dynamic_description
     [\<lparr>el_column = Some ''fabric'', el_label = Some ''Fabric'', el_html_tag = Some ''p'',
       el_order = Some 0\<rparr>]
     [''fabric'' \<mapsto> PStr ''Cotton''] = ''<p><p>Fabric : </p> Cotton</p>''"
  by code_simp

section \<open>Facts about trimming, splitting and joining\<close>

lemma strip_stripped: "stripped s \<Longrightarrow> strip s = s"
proof (cases "s = []")
  case True
  then show ?thesis by (simp add: strip_def lstrip_def rstrip_def)
next
  case False
  assume "stripped s"
  with False have h: "\<not> is_space (hd s)" and l: "\<not> is_space (last s)"
    by (simp_all add: stripped_def)
  from h False have a: "dropWhile is_space s = s"
    by (simp add: dropWhile_eq_self_iff)
  from l False have "\<not> is_space (hd (rev s))" by (simp add: hd_rev)
  then have "dropWhile is_space (rev s) = rev s"
    by (simp add: dropWhile_eq_self_iff)
  with a show ?thesis by (simp add: strip_def lstrip_def rstrip_def)
qed

lemma stripped_strip: "stripped (strip s)"
proof (cases "dropWhile is_space s = []")
  case True
  have "strip s = []" unfolding strip_def lstrip_def rstrip_def True by simp
  then show ?thesis by (simp add: stripped_def)
next
  case False
  define a where "a = dropWhile is_space s"
  define b where "b = dropWhile is_space (rev a)"
  from False have a: "a \<noteq> []" by (simp add: a_def)
  then have ha: "\<not> is_space (hd a)" unfolding a_def by (rule hd_dropWhile)
  have "hd a \<in> set (rev a)" using a by simp
  with ha have b: "b \<noteq> []" unfolding b_def by (auto simp: dropWhile_eq_Nil_conv)
  then have hb: "\<not> is_space (hd b)" unfolding b_def by (rule hd_dropWhile)
  have "rev a = takeWhile is_space (rev a) @ b" by (simp add: b_def)
  then have "last (rev a) = last b" using b by (metis last_appendR)
  then have "last b = hd a" using a by (simp add: last_rev)
  with ha hb b have "\<not> is_space (hd (rev b)) \<and> \<not> is_space (last (rev b))"
    by (simp add: hd_rev last_rev)
  moreover have "strip s = rev b"
    by (simp add: strip_def lstrip_def rstrip_def a_def b_def)
  ultimately show ?thesis by (simp add: stripped_def)
qed

lemma strip_idem: "strip (strip s) = strip s"
  using stripped_strip strip_stripped by blast

lemma split_on_parts_no_sep: "p \<in> set (split_on d s) \<Longrightarrow> d \<notin> set p"
proof (induction s arbitrary: p)
  case Nil
  then show ?case by simp
next
  case (Cons c s)
  show ?case
  proof (cases "c = d")
    case True
    with Cons show ?thesis by auto
  next
    case False
    obtain q qs where q: "split_on d s = q # qs"
      using split_on_not_Nil [of d s] by (cases "split_on d s") auto
    with False Cons.prems have "p = c # q \<or> p \<in> set qs" by auto
    moreover have "d \<notin> set q" using Cons.IH [of q] q by simp
    moreover have "p \<in> set qs \<Longrightarrow> d \<notin> set p" using Cons.IH [of p] q by simp
    ultimately show ?thesis using False by auto
  qed
qed

lemma split_on_join_with:
  assumes "\<forall>x \<in> set xs. d \<notin> set x" and "xs \<noteq> []"
  shows "split_on d (join_with d xs) = xs"
  using assms
proof (induction d xs rule: join_with.induct)
  case (1 d)
  then show ?case by simp
next
  case (2 d x)
  then show ?case by (simp add: split_on_no_sep)
next
  case (3 d x y ys)
  then have "split_on d (join_with d (y # ys)) = y # ys" by simp
  moreover have "d \<notin> set x" using 3 by simp
  ultimately show ?case by (simp add: split_on_append)
qed

lemma size_strings_join:
  assumes "\<forall>x \<in> set xs. CHR '','' \<notin> set x \<and> stripped x \<and> x \<noteq> []"
  shows "size_strings (join_with CHR '','' xs) = xs"
proof (cases "xs = []")
  case True
  then show ?thesis by (simp add: size_strings_def strip_def lstrip_def rstrip_def)
next
  case False
  with assms have "split_on CHR '','' (join_with CHR '','' xs) = xs"
    using split_on_join_with by blast
  moreover have "map strip xs = xs"
    using assms by (simp add: map_idI strip_stripped)
  moreover have "filter (\<lambda>s. s \<noteq> []) xs = xs"
    using assms by (simp add: filter_id_conv)
  ultimately show ?thesis by (simp add: size_strings_def)
qed

lemma size_strings_no_comma: "t \<in> set (size_strings s) \<Longrightarrow> CHR '','' \<notin> set t"
  using split_on_parts_no_sep [of _ "CHR '',''" s] set_strip_subset
  by (fastforce simp: size_strings_def)

lemma size_strings_stripped: "t \<in> set (size_strings s) \<Longrightarrow> stripped t \<and> t \<noteq> []"
  by (auto simp: size_strings_def stripped_strip)

section \<open>Facts about the parser and the size ordering\<close>

lemma parse_strip: "parse_size_and_quantity (strip t) = parse_size_and_quantity t"
  unfolding parse_size_and_quantity_def strip_idem ..

lemma count_one_split:
  assumes "count_list s d = 1"
  shows "\<exists>l r. s = l @ d # r \<and> d \<notin> set l \<and> d \<notin> set r"
proof -
  from assms have "d \<in> set s" by (metis count_list_0_iff zero_neq_one)
  then obtain l r where s: "s = l @ d # r" by (meson split_list)
  with assms have "d \<notin> set l \<and> d \<notin> set r" using count_one_parts by metis
  with s show ?thesis by blast
qed

text \<open>
  What the parser returns as the size: "Custom", the whole trimmed token (with quantity
  0), or a trimmed left part that has no hyphen.
\<close>

lemma parse_cases:
  assumes "parse_size_and_quantity t = Inr (x, n)"
  shows "(x = ''Custom'' \<and> n = 0) \<or> (x = strip t \<and> n = 0) \<or>
         (CHR ''-'' \<notin> set x \<and> (\<exists>l r. strip t = l @ CHR ''-'' # r \<and> x = strip l))"
proof (cases "lower (strip t) = ''custom''")
  case True
  with assms show ?thesis
    unfolding parse_size_and_quantity_def Let_def by simp
next
  case nc: False
  show ?thesis
  proof (cases "count_list (strip t) CHR ''-'' = 1")
    case False
    have "parse_size_and_quantity t = Inr (strip t, 0)"
      using nc False by (rule parse_no_single_hyphen)
    then have "Inr (x, n) = (Inr (strip t, 0) :: py_error + string \<times> int)"
      using assms by metis
    then have "x = strip t \<and> n = 0" by simp
    then show ?thesis by (intro disjI2 disjI1)
  next
    case True
    from count_one_split [OF True]
    obtain l r where s: "strip t = l @ CHR ''-'' # r"
      and l: "CHR ''-'' \<notin> set l" and r: "CHR ''-'' \<notin> set r"
      by (elim exE conjE)
    have sp: "split_on CHR ''-'' (strip t) = [l, r]"
      using split_on_one_hyphen [of l r] l r s by simp
    have "CHR ''-'' \<notin> set (strip l)" using l set_strip_subset [of l] by blast
    with assms s show ?thesis
      unfolding parse_one_hyphen [OF nc True sp]
      by (auto split: option.splits sum.splits py_error.splits)
  qed
qed

lemma parse_Custom: "parse_size_and_quantity ''Custom'' = Inr (''Custom'', 0)"
  by code_simp

lemma parse_result_stripped:
  assumes "parse_size_and_quantity t = Inr (x, n)"
  shows "stripped x"
proof -
  have "stripped ''Custom''" by (simp add: stripped_def is_space_def)
  then show ?thesis
    using parse_cases [OF assms] stripped_strip by auto
qed

lemma parse_again:
  assumes "parse_size_and_quantity t = Inr (x, n)"
    and "lower x = ''custom'' \<longrightarrow> x = ''Custom''"
  shows "parse_size_and_quantity x = Inr (x, 0)"
proof -
  have sx: "strip x = x"
    using parse_result_stripped [OF assms(1)] by (rule strip_stripped)
  consider (custom) "x = ''Custom''" | (whole) "x = strip t" "n = 0"
    | (left) "CHR ''-'' \<notin> set x" "lower x \<noteq> ''custom''"
    using parse_cases [OF assms(1)] assms(2) by blast
  then show ?thesis
  proof cases
    case custom
    then show ?thesis by (simp add: parse_Custom)
  next
    case whole
    then show ?thesis using assms(1) parse_strip [of t] by simp
  next
    case left
    have "count_list (strip x) CHR ''-'' \<noteq> 1"
      using left(1) sx by (simp add: count_list_0_iff)
    then show ?thesis
      using parse_no_single_hyphen [of x] left(2) sx by simp
  qed
qed

lemma parse_result_no_comma:
  assumes "parse_size_and_quantity t = Inr (x, n)" and "CHR '','' \<notin> set t"
  shows "CHR '','' \<notin> set x"
proof -
  have a: "CHR '','' \<notin> set (strip t)" using assms(2) set_strip_subset [of t] by blast
  have "\<And>l r. strip t = l @ CHR ''-'' # r \<Longrightarrow> CHR '','' \<notin> set (strip l)"
  proof -
    fix l r assume "strip t = l @ CHR ''-'' # r"
    with a have "CHR '','' \<notin> set l" by auto
    then show "CHR '','' \<notin> set (strip l)" using set_strip_subset [of l] by blast
  qed
  moreover have "CHR '','' \<notin> set ''Custom''" by simp
  ultimately show ?thesis using parse_cases [OF assms(1)] a by metis
qed

lemma parse_sizes_Inr:
  "(\<forall>t \<in> set ts. \<exists>p. parse_size_and_quantity t = Inr p) \<Longrightarrow>
   parse_sizes ts = Inr (map (\<lambda>t. projr (parse_size_and_quantity t)) ts)"
  by (induction ts) auto

lemma parse_sizes_elems:
  "parse_sizes ts = Inr ps \<Longrightarrow>
   ps = map (\<lambda>t. projr (parse_size_and_quantity t)) ts \<and>
   (\<forall>t \<in> set ts. \<exists>p. parse_size_and_quantity t = Inr p)"
  by (induction ts arbitrary: ps) (auto split: sum.splits)

lemma parse_sizes_fixed:
  "(\<forall>x \<in> set xs. parse_size_and_quantity x = Inr (x, 0)) \<Longrightarrow>
   parse_sizes xs = Inr (map (\<lambda>x. (x, 0)) xs)"
  by (induction xs) auto

lemma unique_loop_set: "set (unique_loop xs acc) = set acc \<union> set xs"
  by (induction xs arbitrary: acc) auto

lemma unique_loop_distinct: "distinct acc \<Longrightarrow> distinct (unique_loop xs acc)"
  by (induction xs arbitrary: acc) auto

lemma unique_loop_id: "distinct (acc @ xs) \<Longrightarrow> unique_loop xs acc = acc @ xs"
  by (induction xs arbitrary: acc) auto

lemma partition_sizes_append:
  "partition_sizes (xs @ ys) =
     (case partition_sizes xs of
        (a, b, c) \<Rightarrow>
          (case partition_sizes ys of (a', b', c') \<Rightarrow> (a @ a', b @ b', c @ c')))"
  by (induction xs) (simp_all split: prod.splits size_class.splits)

lemma partition_sizes_parts:
  assumes "partition_sizes us = (S, N, C)"
  shows "map snd S = filter (\<lambda>s. standard_class (classify s)) us"
    and "\<forall>p \<in> set S. classify (snd p) = Standard (fst p)"
    and "map snd N = filter (\<lambda>s. numeric_class (classify s)) us"
    and "\<forall>p \<in> set N. classify (snd p) = Numeric (fst p)"
    and "C = filter (\<lambda>s. classify s = Custom) us"
  using assms
proof (induction us arbitrary: S N C)
  case Nil
  { case 1 then show ?case by simp }
  { case 2 then show ?case by simp }
  { case 3 then show ?case by simp }
  { case 4 then show ?case by simp }
  { case 5 then show ?case by simp }
next
  case (Cons u us)
  { case 1
    obtain S' N' C' where p: "partition_sizes us = (S', N', C')"
      by (cases "partition_sizes us") auto
    from Cons(1) [OF p] 1 p show ?case
      by (cases "classify u") auto }
  { case 2
    obtain S' N' C' where p: "partition_sizes us = (S', N', C')"
      by (cases "partition_sizes us") auto
    from Cons(2) [OF p] 2 p show ?case
      by (cases "classify u") auto }
  { case 3
    obtain S' N' C' where p: "partition_sizes us = (S', N', C')"
      by (cases "partition_sizes us") auto
    from Cons(3) [OF p] 3 p show ?case
      by (cases "classify u") auto }
  { case 4
    obtain S' N' C' where p: "partition_sizes us = (S', N', C')"
      by (cases "partition_sizes us") auto
    from Cons(4) [OF p] 4 p show ?case
      by (cases "classify u") auto }
  { case 5
    obtain S' N' C' where p: "partition_sizes us = (S', N', C')"
      by (cases "partition_sizes us") auto
    from Cons(5) [OF p] 5 p show ?case
      by (cases "classify u") auto }
qed

lemma partition_standard_only:
  "\<forall>p \<in> set S. classify (snd p) = Standard (fst p) \<Longrightarrow>
   partition_sizes (map snd S) = (S, [], [])"
  by (induction S) auto

lemma partition_numeric_only:
  "\<forall>p \<in> set N. classify (snd p) = Numeric (fst p) \<Longrightarrow>
   partition_sizes (map snd N) = ([], N, [])"
  by (induction N) auto

lemma partition_custom_only:
  "\<forall>s \<in> set C. classify s = Custom \<Longrightarrow> partition_sizes C = ([], [], C)"
  by (induction C) auto

lemma order_sizes_eq:
  assumes "partition_sizes us = (S, N, C)"
  shows "order_sizes us = map snd (sort_key fst S) @ map snd (sort_key fst N) @ sort C"
  using assms by (simp add: order_sizes_def)

lemma order_sizes_idem: "order_sizes (order_sizes us) = order_sizes us"
proof -
  obtain S N C where p: "partition_sizes us = (S, N, C)"
    by (cases "partition_sizes us") auto
  define S' where "S' = sort_key fst S"
  define N' where "N' = sort_key fst N"
  define C' where "C' = sort C"
  have out: "order_sizes us = map snd S' @ map snd N' @ C'"
    unfolding S'_def N'_def C'_def using p by (rule order_sizes_eq)
  have "\<forall>q \<in> set S'. classify (snd q) = Standard (fst q)"
    using partition_sizes_parts(2) [OF p] by (simp add: S'_def)
  then have pS: "partition_sizes (map snd S') = (S', [], [])"
    by (rule partition_standard_only)
  have "\<forall>q \<in> set N'. classify (snd q) = Numeric (fst q)"
    using partition_sizes_parts(4) [OF p] by (simp add: N'_def)
  then have pN: "partition_sizes (map snd N') = ([], N', [])"
    by (rule partition_numeric_only)
  have "\<forall>s \<in> set C'. classify s = Custom"
    using partition_sizes_parts(5) [OF p] by (simp add: C'_def)
  then have pC: "partition_sizes C' = ([], [], C')"
    by (rule partition_custom_only)
  have "partition_sizes (map snd S' @ map snd N' @ C') = (S', N', C')"
    by (simp add: partition_sizes_append pS pN pC)
  then have "order_sizes (map snd S' @ map snd N' @ C') =
             map snd (sort_key fst S') @ map snd (sort_key fst N') @ sort C'"
    by (rule order_sizes_eq)
  moreover have "sort_key fst S' = S'"
    unfolding S'_def by (rule sort_key_id_if_sorted) simp
  moreover have "sort_key fst N' = N'"
    unfolding N'_def by (rule sort_key_id_if_sorted) simp
  moreover have "sort C' = C'"
    unfolding C'_def by (simp add: sorted_sort_id)
  ultimately show ?thesis using out by simp
qed

lemma distinct_map_sort_key:
  assumes "distinct (map g xs)"
  shows "distinct (map g (sort_key f xs))"
proof -
  from assms have "distinct xs" and "inj_on g (set xs)"
    by (simp_all add: distinct_map)
  then show ?thesis by (simp add: distinct_map)
qed

lemma order_sizes_set: "set (order_sizes us) = set us"
proof -
  obtain S N C where p: "partition_sizes us = (S, N, C)"
    by (cases "partition_sizes us") auto
  have "set (map snd (sort_key fst S)) = set (map snd S)"
    and "set (map snd (sort_key fst N)) = set (map snd N)" by simp_all
  then have "set (order_sizes us) =
      set (filter (\<lambda>s. standard_class (classify s)) us) \<union>
      set (filter (\<lambda>s. numeric_class (classify s)) us) \<union>
      set (filter (\<lambda>s. classify s = Custom) us)"
    unfolding order_sizes_eq [OF p] partition_sizes_parts(1,3) [OF p]
    using partition_sizes_parts(5) [OF p] by auto
  moreover have "\<And>s. standard_class (classify s) \<or> numeric_class (classify s) \<or> classify s = Custom"
  proof -
    fix s show "standard_class (classify s) \<or> numeric_class (classify s) \<or> classify s = Custom"
      by (cases "classify s") simp_all
  qed
  ultimately show ?thesis by auto
qed

lemma order_sizes_distinct:
  assumes "distinct us"
  shows "distinct (order_sizes us)"
proof -
  obtain S N C where p: "partition_sizes us = (S, N, C)"
    by (cases "partition_sizes us") auto
  have mS: "map snd S = filter (\<lambda>s. standard_class (classify s)) us"
    and mN: "map snd N = filter (\<lambda>s. numeric_class (classify s)) us"
    and mC: "C = filter (\<lambda>s. classify s = Custom) us"
    using partition_sizes_parts [OF p] by simp_all
  have dS: "distinct (map snd (sort_key fst S))"
    by (rule distinct_map_sort_key) (simp add: mS assms)
  have dN: "distinct (map snd (sort_key fst N))"
    by (rule distinct_map_sort_key) (simp add: mN assms)
  have dC: "distinct (sort C)" by (simp add: mC assms)
  have sS: "set (map snd (sort_key fst S)) = {s \<in> set us. standard_class (classify s)}"
  proof -
    have "set (map snd (sort_key fst S)) = set (map snd S)" by simp
    then show ?thesis unfolding mS by simp
  qed
  have sN: "set (map snd (sort_key fst N)) = {s \<in> set us. numeric_class (classify s)}"
  proof -
    have "set (map snd (sort_key fst N)) = set (map snd N)" by simp
    then show ?thesis unfolding mN by simp
  qed
  have sC: "set (sort C) = {s \<in> set us. classify s = Custom}"
    by (simp add: mC)
  have disj: "\<And>s. \<not> (standard_class (classify s) \<and> numeric_class (classify s)) \<and>
                  \<not> (standard_class (classify s) \<and> classify s = Custom) \<and>
                  \<not> (numeric_class (classify s) \<and> classify s = Custom)"
  proof -
    fix s show "\<not> (standard_class (classify s) \<and> numeric_class (classify s)) \<and>
                  \<not> (standard_class (classify s) \<and> classify s = Custom) \<and>
                  \<not> (numeric_class (classify s) \<and> classify s = Custom)"
      by (cases "classify s") simp_all
  qed
  have "distinct (map snd (sort_key fst S) @ map snd (sort_key fst N) @ sort C)"
    unfolding distinct_append using dS dN dC sS sN sC disj by auto
  then show ?thesis unfolding order_sizes_eq [OF p] .
qed

section \<open>Sorting sizes: results\<close>

lemma sorted_sizes_eq:
  assumes "parse_sizes (size_strings s) = Inr ps"
  shows "sorted_sizes s = Inr (order_sizes (unique_loop (map fst ps) []))"
  using assms by (simp add: sorted_sizes_def sort_sizes_with_quantities_def)

lemma sorted_sizes_members:
  assumes "sorted_sizes s = Inr out"
  shows "distinct out"
    and "set out = {x. \<exists>t \<in> set (size_strings s). \<exists>n. parse_size_and_quantity t = Inr (x, n)}"
proof -
  from assms obtain ps where ps: "parse_sizes (size_strings s) = Inr ps"
    by (cases "parse_sizes (size_strings s)")
       (simp_all add: sorted_sizes_def sort_sizes_with_quantities_def)
  from assms have out: "out = order_sizes (unique_loop (map fst ps) [])"
    unfolding sorted_sizes_eq [OF ps] by simp
  show "distinct out"
    unfolding out by (rule order_sizes_distinct) (simp add: unique_loop_distinct)
  have el: "ps = map (\<lambda>t. projr (parse_size_and_quantity t)) (size_strings s)"
    and ok: "\<forall>t \<in> set (size_strings s). \<exists>p. parse_size_and_quantity t = Inr p"
    using parse_sizes_elems [OF ps] by simp_all
  have "set out = set (map fst ps)"
    unfolding out by (simp add: order_sizes_set unique_loop_set)
  also have "\<dots> = (\<lambda>t. fst (projr (parse_size_and_quantity t))) ` set (size_strings s)"
    unfolding el by (simp add: image_image)
  also have "\<dots> = {x. \<exists>t \<in> set (size_strings s). \<exists>n. parse_size_and_quantity t = Inr (x, n)}"
  proof (intro set_eqI iffI)
    fix x
    assume "x \<in> (\<lambda>t. fst (projr (parse_size_and_quantity t))) ` set (size_strings s)"
    then obtain t where t: "t \<in> set (size_strings s)"
      and x: "x = fst (projr (parse_size_and_quantity t))" by auto
    from ok t obtain p where p: "parse_size_and_quantity t = Inr p" by auto
    then have "parse_size_and_quantity t = Inr (x, snd p)" using x by simp
    with t show "x \<in> {x. \<exists>t \<in> set (size_strings s). \<exists>n. parse_size_and_quantity t = Inr (x, n)}"
      by auto
  next
    fix x
    assume "x \<in> {x. \<exists>t \<in> set (size_strings s). \<exists>n. parse_size_and_quantity t = Inr (x, n)}"
    then obtain t n where t: "t \<in> set (size_strings s)"
      and p: "parse_size_and_quantity t = Inr (x, n)" by auto
    then have "x = fst (projr (parse_size_and_quantity t))" by simp
    with t show "x \<in> (\<lambda>t. fst (projr (parse_size_and_quantity t))) ` set (size_strings s)"
      by auto
  qed
  finally show "set out = {x. \<exists>t \<in> set (size_strings s). \<exists>n. parse_size_and_quantity t = Inr (x, n)}" .
qed

lemma sorted_sizes_again:
  assumes "sorted_sizes s = Inr out"
    and "\<forall>x \<in> set out. x \<noteq> [] \<and> (lower x = ''custom'' \<longrightarrow> x = ''Custom'')"
  shows "sorted_sizes (join_with CHR '','' out) = Inr out"
proof -
  from assms(1) obtain ps where ps: "parse_sizes (size_strings s) = Inr ps"
    by (cases "parse_sizes (size_strings s)")
       (simp_all add: sorted_sizes_def sort_sizes_with_quantities_def)
  from assms(1) have out: "out = order_sizes (unique_loop (map fst ps) [])"
    unfolding sorted_sizes_eq [OF ps] by simp
  have d: "distinct out" using assms(1) by (rule sorted_sizes_members(1))
  have src: "\<forall>x \<in> set out. \<exists>t \<in> set (size_strings s). \<exists>n. parse_size_and_quantity t = Inr (x, n)"
    using sorted_sizes_members(2) [OF assms(1)] by simp
  have props: "\<forall>x \<in> set out. CHR '','' \<notin> set x \<and> stripped x \<and> x \<noteq> []"
  proof
    fix x assume x: "x \<in> set out"
    with src obtain t n where t: "t \<in> set (size_strings s)"
      and p: "parse_size_and_quantity t = Inr (x, n)" by auto
    have "CHR '','' \<notin> set t" using t by (rule size_strings_no_comma)
    with p have "CHR '','' \<notin> set x" by (rule parse_result_no_comma)
    moreover have "stripped x" using p by (rule parse_result_stripped)
    moreover have "x \<noteq> []" using assms(2) x by simp
    ultimately show "CHR '','' \<notin> set x \<and> stripped x \<and> x \<noteq> []" by simp
  qed
  then have ss: "size_strings (join_with CHR '','' out) = out"
    by (rule size_strings_join)
  have "\<forall>x \<in> set out. parse_size_and_quantity x = Inr (x, 0)"
  proof
    fix x assume x: "x \<in> set out"
    with src obtain t n where p: "parse_size_and_quantity t = Inr (x, n)" by auto
    moreover have "lower x = ''custom'' \<longrightarrow> x = ''Custom''" using assms(2) x by simp
    ultimately show "parse_size_and_quantity x = Inr (x, 0)" by (rule parse_again)
  qed
  then have "parse_sizes out = Inr (map (\<lambda>x. (x, 0)) out)"
    by (rule parse_sizes_fixed)
  then have "parse_sizes (size_strings (join_with CHR '','' out)) = Inr (map (\<lambda>x. (x, 0)) out)"
    unfolding ss .
  then have "sorted_sizes (join_with CHR '','' out) =
             Inr (order_sizes (unique_loop (map fst (map (\<lambda>x. (x, 0 :: int)) out)) []))"
    by (rule sorted_sizes_eq)
  moreover have "map fst (map (\<lambda>x. (x, 0 :: int)) out) = out" by (simp add: comp_def)
  moreover have "unique_loop out [] = out" using d unique_loop_id [of "[]" out] by simp
  moreover have "order_sizes out = out" unfolding out by (rule order_sizes_idem)
  ultimately show ?thesis by simp
qed

lemma sorted_sizes_returns:
  assumes "\<forall>t \<in> set (size_strings s). \<exists>p. parse_size_and_quantity t = Inr p"
  shows "\<exists>out. sorted_sizes s = Inr out"
  using parse_sizes_Inr [OF assms] sorted_sizes_eq by metis

text \<open>
  C7, as the code has it. When every comma-separated piece parses (none raises), the
  function returns a list without duplicates that holds exactly the sizes the parser
  gives for the pieces: a piece with an embedded quantity appears as its size, and
  "custom" in any letter case as "Custom". Sorting the comma-joined result again
  gives the same list, provided no size in it is empty and none is a differently cased
  "custom".
\<close>

theorem sort_sizes_output:
  assumes "\<forall>t \<in> set (size_strings s). \<exists>p. parse_size_and_quantity t = Inr p"
  shows "\<exists>out. sorted_sizes s = Inr out \<and> distinct out \<and>
           set out = {x. \<exists>t \<in> set (size_strings s). \<exists>n.
                          parse_size_and_quantity t = Inr (x, n)} \<and>
           ((\<forall>x \<in> set out. x \<noteq> [] \<and> (lower x = ''custom'' \<longrightarrow> x = ''Custom'')) \<longrightarrow>
              sorted_sizes (join_with CHR '','' out) = Inr out)"
proof -
  from sorted_sizes_returns [OF assms] obtain out where out: "sorted_sizes s = Inr out" ..
  have "distinct out" using out by (rule sorted_sizes_members(1))
  moreover have "set out = {x. \<exists>t \<in> set (size_strings s). \<exists>n.
                          parse_size_and_quantity t = Inr (x, n)}"
    using out by (rule sorted_sizes_members(2))
  moreover have "(\<forall>x \<in> set out. x \<noteq> [] \<and> (lower x = ''custom'' \<longrightarrow> x = ''Custom'')) \<longrightarrow>
              sorted_sizes (join_with CHR '','' out) = Inr out"
    using sorted_sizes_again [OF out] by (rule impI)
  ultimately show ?thesis using out by (intro exI [of _ out] conjI)
qed

theorem sort_sizes_output_witness:
  "sorted_sizes ''L-3, M-5,S'' = Inr [''S'', ''M'', ''L''] \<and>
   distinct [''S'', ''M'', ''L''] \<and>
   sorted_sizes (join_with CHR '','' [''S'', ''M'', ''L'']) = Inr [''S'', ''M'', ''L'']"
proof -
  have ts: "size_strings ''L-3, M-5,S'' = [''L-3'', ''M-5'', ''S'']" by code_simp
  have p1: "parse_size_and_quantity ''L-3'' = Inr (''L'', 3)" by code_simp
  have p2: "parse_size_and_quantity ''M-5'' = Inr (''M'', 5)" by code_simp
  have p3: "parse_size_and_quantity ''S'' = Inr (''S'', 0)" by code_simp
  have h: "\<forall>t \<in> set (size_strings ''L-3, M-5,S'') . \<exists>p. parse_size_and_quantity t = Inr p"
    unfolding ts using p1 p2 p3 by simp
  have v: "sorted_sizes ''L-3, M-5,S'' = Inr [''S'', ''M'', ''L'']" by code_simp
  have c: "\<forall>x \<in> set [''S'', ''M'', ''L''].
             x \<noteq> [] \<and> (lower x = ''custom'' \<longrightarrow> x = ''Custom'')"
    by code_simp
  from sort_sizes_output [OF h] obtain out where
    o: "sorted_sizes ''L-3, M-5,S'' = Inr out \<and> distinct out \<and>
        set out = {x. \<exists>t \<in> set (size_strings ''L-3, M-5,S''). \<exists>n.
                       parse_size_and_quantity t = Inr (x, n)} \<and>
        ((\<forall>x \<in> set out. x \<noteq> [] \<and> (lower x = ''custom'' \<longrightarrow> x = ''Custom'')) \<longrightarrow>
           sorted_sizes (join_with CHR '','' out) = Inr out)" ..
  then have e: "out = [''S'', ''M'', ''L'']" using v by simp
  have d: "distinct out"
    by (rule o [THEN conjunct2, THEN conjunct1])
  have i: "(\<forall>x \<in> set out. x \<noteq> [] \<and> (lower x = ''custom'' \<longrightarrow> x = ''Custom'')) \<longrightarrow>
              sorted_sizes (join_with CHR '','' out) = Inr out"
    by (rule o [THEN conjunct2, THEN conjunct2, THEN conjunct2])
  from i c have "sorted_sizes (join_with CHR '','' out) = Inr out"
    unfolding e by (rule mp)
  with d v show ?thesis unfolding e by (intro conjI)
qed

text \<open>
  The input "M-5,M-3" has two distinct pieces; the output is the one size "M" and holds
  neither piece. Sorting "CUSTOM-5" gives "CUSTOM", and sorting that gives "Custom".
\<close>

theorem sort_sizes_tokens_counterexample:
  "size_strings ''M-5,M-3'' = [''M-5'', ''M-3''] \<and>
   sorted_sizes ''M-5,M-3'' = Inr [''M''] \<and>
   sorted_sizes ''CUSTOM-5'' = Inr [''CUSTOM''] \<and>
   sorted_sizes ''CUSTOM'' = Inr [''Custom'']"
  by code_simp

section \<open>Facts about the data processor\<close>

lemma split_on_first:
  "\<exists>ps. split_on d s = takeWhile (\<lambda>c. c \<noteq> d) s # ps"
proof (induction s)
  case Nil
  then show ?case by simp
next
  case (Cons c s)
  then obtain ps where "split_on d s = takeWhile (\<lambda>c. c \<noteq> d) s # ps" ..
  then show ?case by simp
qed

lemma display_size_no_hyphen: "CHR ''-'' \<notin> set sz \<Longrightarrow> display_size_of sz = sz"
  by (simp add: display_size_of_def)

lemma display_size_hyphen:
  assumes "CHR ''-'' \<in> set sz"
  shows "display_size_of sz = strip (takeWhile (\<lambda>c. c \<noteq> CHR ''-'') sz)"
    and "display_size_of sz \<noteq> sz"
proof -
  from assms have ne: "sz \<noteq> []" by auto
  obtain ps where "split_on CHR ''-'' sz = takeWhile (\<lambda>c. c \<noteq> CHR ''-'') sz # ps"
    using split_on_first [of "CHR ''-''" sz] ..
  with assms ne show d: "display_size_of sz = strip (takeWhile (\<lambda>c. c \<noteq> CHR ''-'') sz)"
    by (simp add: display_size_of_def)
  have "CHR ''-'' \<notin> set (takeWhile (\<lambda>c. c \<noteq> CHR ''-'') sz)"
    by (metis (mono_tags, lifting) set_takeWhileD)
  then have "CHR ''-'' \<notin> set (strip (takeWhile (\<lambda>c. c \<noteq> CHR ''-'') sz))"
    using set_strip_subset by (metis subsetD)
  with assms show "display_size_of sz \<noteq> sz" unfolding d by metis
qed

lemma new_row_fields:
  "new_row r sz color qm price cfg ''sizes_list'' = Some (PStr sz)"
  "new_row r sz color qm price cfg ''display_size'' = Some (PStr (display_size_of sz))"
  "new_row r sz color qm price cfg ''colours_list'' = Some (PStr color)"
  "new_row r sz color qm price cfg ''uploaded_compare_price'' = Some price"
  by (simp_all add: new_row_def)

text \<open>Every exploded row is the source row with a size of the sorted list and a colour.\<close>

lemma explode_row_rows:
  assumes "explode_row m cfg r = Inr rows" and "r' \<in> set rows"
  shows "\<exists>sz color qm. r' = new_row r sz color qm (extract_compare_price r m cfg) cfg \<and>
           (sz = [] \<or> (\<exists>out. sorted_sizes (sizes_text r m) = Inr out \<and> sz \<in> set out))"
proof -
  from assms(1) obtain out q where
    s: "sort_sizes_with_quantities (sizes_text r m) = Inr (out, q)"
    by (cases "sort_sizes_with_quantities (sizes_text r m)") (auto simp: explode_row_def)
  then have so: "sorted_sizes (sizes_text r m) = Inr out"
    by (simp add: sorted_sizes_def)
  define sizes where "sizes = (if out = [] then [[]] else out)"
  have mem: "\<And>sz. sz \<in> set sizes \<Longrightarrow> sz = [] \<or> sz \<in> set out"
    by (simp add: sizes_def split: if_splits)
  from assms s obtain sz color qm where "sz \<in> set sizes"
    and "r' = new_row r sz color qm (extract_compare_price r m cfg) cfg"
    by (auto simp: explode_row_def Let_def sizes_def split: if_splits)
  with mem so show ?thesis by metis
qed

lemma sorted_size_is_parsed:
  assumes "sorted_sizes s = Inr out" and "sz \<in> set out"
  shows "\<exists>t \<in> set (size_strings s). \<exists>n. parse_size_and_quantity t = Inr (sz, n)"
  using sorted_sizes_members(2) [OF assms(1)] assms(2) by auto

lemma size_with_hyphen_is_token:
  assumes "t \<in> set (size_strings s)" and "parse_size_and_quantity t = Inr (sz, n)"
    and "CHR ''-'' \<in> set sz"
  shows "sz = t"
proof -
  have "strip t = t" using size_strings_stripped [OF assms(1)] strip_stripped by metis
  moreover have "CHR ''-'' \<notin> set ''Custom''" by simp
  ultimately show ?thesis using parse_cases [OF assms(2)] assms(3) by metis
qed

lemma process_variants_rows:
  assumes "process_variants rs m cfg = Inr rows" and "r' \<in> set rows"
  shows "\<exists>r \<in> set rs. \<exists>xs. explode_row m cfg r = Inr xs \<and> r' \<in> set xs"
  using assms
proof (induction rs arbitrary: rows)
  case Nil
  then show ?case by simp
next
  case (Cons r rs)
  from Cons.prems(1) obtain xs ys where
    x: "explode_row m cfg r = Inr xs" and y: "process_variants rs m cfg = Inr ys"
    and rows: "rows = xs @ ys"
    by (auto split: sum.splits)
  from Cons.prems(2) rows consider "r' \<in> set xs" | "r' \<in> set ys" by auto
  then show ?case
  proof cases
    case 1
    with x show ?thesis by auto
  next
    case 2
    from Cons.IH [OF y 2] show ?thesis by auto
  qed
qed

lemma exploded_uploaded_compare_price:
  assumes "explode_row m cfg r = Inr xs" and "r' \<in> set xs"
  shows "r' ''uploaded_compare_price'' = Some (extract_compare_price r m cfg)"
proof -
  from explode_row_rows [OF assms] obtain sz color qm where
    "r' = new_row r sz color qm (extract_compare_price r m cfg) cfg" by (elim exE conjE)
  then show ?thesis by (simp add: new_row_fields)
qed

text \<open>A blank cell gives no price when prices are read from the table.\<close>

lemma extract_compare_price_blank:
  assumes "\<not> cfg_get (bulk_compare_price_mode cfg) False"
    and "cfg_get (use_expected_compare_price cfg) True"
    and "isna (get_column_value r m ''Variant Compare At Price'' (PStr [])) \<or>
         strip (py_str (get_column_value r m ''Variant Compare At Price'' (PStr []))) = []"
  shows "extract_compare_price r m cfg = PNone"
  using assms by (auto simp: extract_compare_price_def Let_def)

lemma variant_compare_price_empty:
  assumes "isna x \<or> x = PStr [] \<or> is_zero x"
    and "x = stored_compare_price cfg store m r"
  shows "variant_compare_price cfg store m r = Inr PNone"
  using assms by (auto simp: variant_compare_price_def Let_def)

lemma shaped_compare_price_None: "shaped_compare_price PNone = Inr (PStr [])"
  by (simp add: shaped_compare_price_def)

lemma shaped_prices_nth:
  assumes "shaped_prices cfg store m rows = Inr cs" and "i < length rows"
  shows "length cs = length rows \<and>
         (\<exists>x. variant_compare_price cfg store m (rows ! i) = Inr x \<and>
              shaped_compare_price x = Inr (cs ! i))"
  using assms
proof (induction rows arbitrary: cs i)
  case Nil
  then show ?case by simp
next
  case (Cons r rows)
  from Cons.prems(1) obtain x c cs' where
    v: "variant_compare_price cfg store m r = Inr x" and s: "shaped_compare_price x = Inr c"
    and rest: "shaped_prices cfg store m rows = Inr cs'" and cs: "cs = c # cs'"
    by (auto split: sum.splits)
  show ?case
  proof (cases i)
    case 0
    have "length cs' = length rows"
    proof (cases rows)
      case Nil
      with rest show ?thesis by simp
    next
      case (Cons a list)
      then have "0 < length rows" by simp
      from Cons.IH [OF rest this] show ?thesis by simp
    qed
    with 0 v s cs show ?thesis by simp
  next
    case (Suc j)
    with Cons.prems(2) have "j < length rows" by simp
    from Cons.IH [OF rest this] Suc cs show ?thesis by simp
  qed
qed

lemma object_cell_empty: "object_cell (PStr []) = PStr []"
  by (simp add: object_cell_def)

lemma clean_compare_column_empty:
  assumes "i < length cells" and "cells ! i = PStr []"
  shows "clean_compare_column cells ! i = PStr []"
proof -
  from assms have "PStr [] \<in> set cells" by (metis nth_mem)
  then have "\<exists>v \<in> set cells. is_text v" by (rule bexI [rotated]) simp
  then have "clean_compare_column cells = map object_cell cells"
    by (simp add: clean_compare_column_def)
  with assms show ?thesis by (simp add: object_cell_empty)
qed

text \<open>
  A row whose price after the overrides is missing, empty or zero has the empty string
  in the compare price column.
\<close>

lemma emitted_compare_price_empty:
  assumes "emitted_compare_prices cfg store m rows = Inr out" and "i < length rows"
    and "isna (stored_compare_price cfg store m (rows ! i)) \<or>
         stored_compare_price cfg store m (rows ! i) = PStr [] \<or>
         is_zero (stored_compare_price cfg store m (rows ! i))"
  shows "out ! i = PStr []"
proof -
  from assms(1) obtain cs where cs: "shaped_prices cfg store m rows = Inr cs"
    and out: "out = clean_compare_column cs"
    by (cases "shaped_prices cfg store m rows") (auto simp: emitted_compare_prices_def)
  from shaped_prices_nth [OF cs assms(2)] obtain x where
    len: "length cs = length rows"
    and v: "variant_compare_price cfg store m (rows ! i) = Inr x"
    and s: "shaped_compare_price x = Inr (cs ! i)" by (elim exE conjE)
  from variant_compare_price_empty [OF assms(3) refl] v have "x = PNone" by simp
  with s have "cs ! i = PStr []" by (simp add: shaped_compare_price_None)
  with len assms(2) out show ?thesis by (simp add: clean_compare_column_empty)
qed

section \<open>The size and the display size of an exploded row\<close>

text \<open>
  What \<open>_process_variants\<close> computes for the two fields. The size of an exploded row is
  empty (a row without sizes) or is what the size parser returns for one of the
  comma-separated tokens of the size cell, so the quantity a token embeds is already gone
  from it; a size that still has a hyphen is a whole token, one the parser keeps as it is.
  The display size is computed from the size alone and is cut at the first hyphen.
\<close>

lemma exploded_row_sizes:
  assumes "explode_row m cfg r = Inr rows" and "r' \<in> set rows"
  shows "\<exists>sz. r' ''sizes_list'' = Some (PStr sz) \<and>
              r' ''display_size'' = Some (PStr (display_size_of sz)) \<and>
              (sz = [] \<or> (\<exists>t n. t \<in> set (size_strings (sizes_text r m)) \<and>
                                parse_size_and_quantity t = Inr (sz, n) \<and>
                                (CHR ''-'' \<in> set sz \<longrightarrow> sz = t)))"
proof -
  from explode_row_rows [OF assms] obtain sz color qm where
    r': "r' = new_row r sz color qm (extract_compare_price r m cfg) cfg"
    and sz: "sz = [] \<or> (\<exists>out. sorted_sizes (sizes_text r m) = Inr out \<and> sz \<in> set out)"
    by (elim exE conjE)
  have f1: "r' ''sizes_list'' = Some (PStr sz)"
    and f2: "r' ''display_size'' = Some (PStr (display_size_of sz))"
    unfolding r' by (simp_all add: new_row_fields)
  have tok: "sz = [] \<or> (\<exists>t n. t \<in> set (size_strings (sizes_text r m)) \<and>
                                parse_size_and_quantity t = Inr (sz, n) \<and>
                                (CHR ''-'' \<in> set sz \<longrightarrow> sz = t))"
  proof (cases "sz = []")
    case True
    then show ?thesis by simp
  next
    case False
    with sz obtain out where "sorted_sizes (sizes_text r m) = Inr out" and "sz \<in> set out"
      by (elim disjE exE conjE) simp_all
    from sorted_size_is_parsed [OF this] obtain t n where
      t: "t \<in> set (size_strings (sizes_text r m))"
      and p: "parse_size_and_quantity t = Inr (sz, n)" by (elim bexE exE)
    have "CHR ''-'' \<in> set sz \<longrightarrow> sz = t"
      using size_with_hyphen_is_token [OF t p] by (rule impI)
    with t p show ?thesis by (intro disjI2 exI conjI)
  qed
  from f1 f2 tok show ?thesis by (intro exI conjI)
qed

text \<open>
  C8. The claim has a token without an embedded quantity displayed whole, tokens with two
  or more hyphens among them. The size cell \<open>M-5, A-B-C\<close> gives two rows. The token
  \<open>M-5\<close> embeds a quantity: its row carries the size \<open>M\<close> and the display size \<open>M\<close>.
  The token \<open>A-B-C\<close> has no quantity, the parser returns it whole with the quantity 0,
  and its row carries the size \<open>A-B-C\<close> with the display size \<open>A\<close>: the code cuts the
  display size of the token at its first hyphen instead of leaving the token unchanged.
\<close>

theorem display_size_cuts_opaque_token:
  "column_values ''sizes_list'' (explode_row example_mapping example_config blank_price_row)
     = Inr [Some (PStr ''M''), Some (PStr ''A-B-C'')] \<and>
   column_values ''display_size'' (explode_row example_mapping example_config blank_price_row)
     = Inr [Some (PStr ''M''), Some (PStr ''A'')] \<and>
   parse_size_and_quantity ''A-B-C'' = Inr (''A-B-C'', 0)"
  by code_simp


section \<open>The compare price of a row with a blank cell\<close>

text \<open>
  Claim C1, as the code has it. Take a source row whose mapped compare price cell is blank
  (no column, a missing value, an empty or a white-space text), with the bulk price mode
  off and prices read from the table. Its extracted compare price is \<open>None\<close>, and every
  row exploded from it carries \<open>None\<close>. When the session holds no price for the variant
  key of such a row (no store of variant prices, no entry for the key, or an entry that is
  \<open>None\<close>), the override step keeps \<open>None\<close> and the cell of the row in the compare
  price column of the catalog is the empty string.
\<close>

theorem blank_compare_price_serializes_empty:
  assumes "\<not> cfg_get (bulk_compare_price_mode cfg) False"
    and "cfg_get (use_expected_compare_price cfg) True"
    and "isna (get_column_value r m ''Variant Compare At Price'' (PStr [])) \<or>
         strip (py_str (get_column_value r m ''Variant Compare At Price'' (PStr []))) = []"
    and "explode_row m cfg r = Inr xs"
    and "i < length rows" and "rows ! i \<in> set xs"
    and "store = None \<or>
         (\<exists>st. store = Some st \<and> st (variant_key (rows ! i) m) \<in> {None, Some PNone})"
    and "emitted_compare_prices cfg store m rows = Inr out"
  shows "extract_compare_price r m cfg = PNone \<and>
         (rows ! i) ''uploaded_compare_price'' = Some PNone \<and>
         variant_compare_price cfg store m (rows ! i) = Inr PNone \<and>
         out ! i = PStr [] \<and> out ! i \<noteq> PStr ''0'' \<and> out ! i \<noteq> PStr ''0.0''"
proof -
  have e: "extract_compare_price r m cfg = PNone"
    using assms(1-3) by (rule extract_compare_price_blank)
  have u: "(rows ! i) ''uploaded_compare_price'' = Some PNone"
    using exploded_uploaded_compare_price [OF assms(4,6)] e by simp
  have s: "stored_compare_price cfg store m (rows ! i) = PNone"
  proof -
    from assms(7) consider "store = None"
      | st where "store = Some st" and "st (variant_key (rows ! i) m) = None"
      | st where "store = Some st" and "st (variant_key (rows ! i) m) = Some PNone"
      by auto
    then show ?thesis
    proof cases
      case 1
      with assms(1) u show ?thesis by (simp add: stored_compare_price_def row_get_def)
    next
      case 2
      with assms(1) show ?thesis by (simp add: stored_compare_price_def)
    next
      case 3
      with assms(1) show ?thesis by (simp add: stored_compare_price_def)
    qed
  qed
  then have na: "isna (stored_compare_price cfg store m (rows ! i)) \<or>
                 stored_compare_price cfg store m (rows ! i) = PStr [] \<or>
                 is_zero (stored_compare_price cfg store m (rows ! i))" by simp
  have v: "variant_compare_price cfg store m (rows ! i) = Inr PNone"
    using variant_compare_price_empty [OF na refl] .
  have o: "out ! i = PStr []"
    using emitted_compare_price_empty [OF assms(8,5) na] .
  from e u v o show ?thesis by simp
qed

theorem blank_compare_price_serializes_empty_witness:
  "extract_compare_price blank_price_row example_mapping example_config = PNone \<and>
   (projr (explode_row example_mapping example_config blank_price_row) ! 0)
      ''uploaded_compare_price'' = Some PNone \<and>
   variant_compare_price example_config None example_mapping
     (projr (explode_row example_mapping example_config blank_price_row) ! 0) = Inr PNone \<and>
   projr (emitted_compare_prices example_config None example_mapping
     (projr (explode_row example_mapping example_config blank_price_row))) ! 0 = PStr [] \<and>
   projr (emitted_compare_prices example_config None example_mapping
     (projr (explode_row example_mapping example_config blank_price_row))) ! 0 \<noteq> PStr ''0'' \<and>
   projr (emitted_compare_prices example_config None example_mapping
     (projr (explode_row example_mapping example_config blank_price_row))) ! 0 \<noteq> PStr ''0.0''"
proof -
  define rows where "rows = projr (explode_row example_mapping example_config blank_price_row)"
  define out where "out = projr (emitted_compare_prices example_config None example_mapping
     (projr (explode_row example_mapping example_config blank_price_row)))"
  have h1: "\<not> cfg_get (bulk_compare_price_mode example_config) False" by code_simp
  have h2: "cfg_get (use_expected_compare_price example_config) True" by code_simp
  have "strip (py_str (get_column_value blank_price_row example_mapping
          ''Variant Compare At Price'' (PStr []))) = []" by code_simp
  then have h3: "isna (get_column_value blank_price_row example_mapping
          ''Variant Compare At Price'' (PStr [])) \<or>
        strip (py_str (get_column_value blank_price_row example_mapping
          ''Variant Compare At Price'' (PStr []))) = []" by (rule disjI2)
  have "\<not> isl (explode_row example_mapping example_config blank_price_row)" by code_simp
  then have h4: "explode_row example_mapping example_config blank_price_row = Inr rows"
    unfolding rows_def by simp
  have len: "length (projr (explode_row example_mapping example_config blank_price_row)) = 2"
    by code_simp
  then have h5: "0 < length rows" unfolding rows_def by simp
  then have h6: "rows ! 0 \<in> set rows" by (rule nth_mem)
  have h7: "(None :: (string \<rightharpoonup> pyval) option) = None \<or>
            (\<exists>st. None = Some st \<and> st (variant_key (rows ! 0) example_mapping) \<in> {None, Some PNone})"
    by simp
  have "\<not> isl (emitted_compare_prices example_config None example_mapping
     (projr (explode_row example_mapping example_config blank_price_row)))" by code_simp
  then have h8: "emitted_compare_prices example_config None example_mapping rows = Inr out"
    unfolding rows_def out_def by simp
  from blank_compare_price_serializes_empty [OF h1 h2 h3 h4 h5 h6 h7 h8]
  show ?thesis unfolding rows_def out_def .
qed

text \<open>
  The same row with a blank compare price cell, in a session whose store of variant prices
  holds 50 for the variant M, Red of the product: the catalog row of that variant has the
  compare price 50, not the empty string.
\<close>

theorem blank_compare_price_override_counterexample:
  "strip (py_str (get_column_value blank_price_row example_mapping
      ''Variant Compare At Price'' (PStr []))) = [] \<and>
   \<not> cfg_get (bulk_compare_price_mode example_config) False \<and>
   cfg_get (use_expected_compare_price example_config) True \<and>
   extract_compare_price blank_price_row example_mapping example_config = PNone \<and>
   catalog_compare_prices example_config (Some example_store) example_mapping [blank_price_row]
     = Inr [PStr ''50'', PStr []]"
  by code_simp


section \<open>A compare price of zero\<close>

text \<open>
  Claim C5, as the code has it. Take a source row whose mapped compare price cell reads as
  the number 0, with the bulk price mode off and prices read from the table. The extracted
  compare price is the number 0.0 when the cell is a true value (a text such as \<open>0\<close>),
  and \<open>None\<close> when the cell is false (the number 0 itself). In both cases, when the
  session holds for the variant key of a row exploded from it no price (no store of
  variant prices or no entry for the key), or an entry that is \<open>None\<close>, the empty string
  or zero, the override step gives \<open>None\<close> and the cell of the row in the compare price
  column of the catalog is the empty string, as it is for a row with no compare price:
  zero is serialized like an absent price.
\<close>

theorem zero_compare_price_serializes_empty:
  assumes "\<not> cfg_get (bulk_compare_price_mode cfg) False"
    and "cfg_get (use_expected_compare_price cfg) True"
    and "float_of_str (strip (py_str (get_column_value r m ''Variant Compare At Price'' (PStr []))))
           = Some (Fin 0)"
    and "explode_row m cfg r = Inr xs"
    and "i < length rows" and "rows ! i \<in> set xs"
    and "store = None \<or>
         (\<exists>st. store = Some st \<and>
            (st (variant_key (rows ! i) m) = None \<or>
             (\<exists>p. st (variant_key (rows ! i) m) = Some p \<and>
                  (isna p \<or> p = PStr [] \<or> is_zero p))))"
    and "emitted_compare_prices cfg store m rows = Inr out"
  shows "extract_compare_price r m cfg =
           (if truthy (get_column_value r m ''Variant Compare At Price'' (PStr []))
            then PFloat (Fin 0) else PNone) \<and>
         variant_compare_price cfg store m (rows ! i) = Inr PNone \<and>
         out ! i = PStr []"
proof -
  define v where "v = get_column_value r m ''Variant Compare At Price'' (PStr [])"
  define e where "e = (if truthy v then PFloat (Fin 0) else PNone)"
  have f: "float_of_str (strip (py_str v)) = Some (Fin 0)"
    using assms(3) unfolding v_def .
  have ne: "strip (py_str v) \<noteq> []"
  proof
    assume "strip (py_str v) = []"
    with f have "float_of_str [] = Some (Fin 0)" by simp
    moreover have "float_of_str [] = None" by code_simp
    ultimately show False by simp
  qed
  have na: "\<not> isna v"
  proof
    assume "isna v"
    then have "v = PNone \<or> v = PFloat NaN"
      by (cases v rule: isna.cases) simp_all
    then have "py_str v = ''None'' \<or> py_str v = ''nan''"
      by (elim disjE) simp_all
    moreover have "float_of_str (strip ''None'') = None" by code_simp
    moreover have "float_of_str (strip ''nan'') = Some NaN" by code_simp
    ultimately show False using f by auto
  qed
  have ex: "extract_compare_price r m cfg = e"
    using assms(1,2) f ne na unfolding e_def
    by (simp add: extract_compare_price_def Let_def v_def [symmetric])
  have ez: "isna e \<or> e = PStr [] \<or> is_zero e" unfolding e_def by simp
  have u: "(rows ! i) ''uploaded_compare_price'' = Some e"
    using exploded_uploaded_compare_price [OF assms(4,6)] ex by simp
  have z: "isna (stored_compare_price cfg store m (rows ! i)) \<or>
           stored_compare_price cfg store m (rows ! i) = PStr [] \<or>
           is_zero (stored_compare_price cfg store m (rows ! i))"
  proof -
    from assms(7) consider "store = None"
      | st where "store = Some st" and "st (variant_key (rows ! i) m) = None"
      | st p where "store = Some st" and "st (variant_key (rows ! i) m) = Some p"
          and "isna p \<or> p = PStr [] \<or> is_zero p"
      by (elim disjE exE conjE) simp_all
    then show ?thesis
    proof cases
      case 1
      with assms(1) u have "stored_compare_price cfg store m (rows ! i) = e"
        by (simp add: stored_compare_price_def row_get_def)
      with ez show ?thesis by simp
    next
      case 2
      with assms(1) have "stored_compare_price cfg store m (rows ! i) = PNone"
        by (simp add: stored_compare_price_def)
      then show ?thesis by simp
    next
      case 3
      with assms(1) have "stored_compare_price cfg store m (rows ! i) = p"
        by (simp add: stored_compare_price_def)
      with 3(3) show ?thesis by simp
    qed
  qed
  have vp: "variant_compare_price cfg store m (rows ! i) = Inr PNone"
    using variant_compare_price_empty [OF z refl] .
  have o: "out ! i = PStr []"
    using emitted_compare_price_empty [OF assms(8,5) z] .
  from ex vp o show ?thesis unfolding e_def v_def by simp
qed

theorem zero_compare_price_serializes_empty_witness:
  "extract_compare_price zero_price_row example_mapping example_config = PFloat (Fin 0) \<and>
   extract_compare_price numeric_zero_price_row example_mapping example_config = PNone \<and>
   variant_compare_price example_config None example_mapping
     (projr (explode_row example_mapping example_config zero_price_row) ! 0) = Inr PNone \<and>
   projr (emitted_compare_prices example_config None example_mapping
     (projr (explode_row example_mapping example_config zero_price_row))) ! 0 = PStr [] \<and>
   projr (emitted_compare_prices example_config None example_mapping
     (projr (explode_row example_mapping example_config numeric_zero_price_row))) ! 0 = PStr []"
proof -
  define rows where "rows = projr (explode_row example_mapping example_config zero_price_row)"
  define out where "out = projr (emitted_compare_prices example_config None example_mapping
     (projr (explode_row example_mapping example_config zero_price_row)))"
  define rows' where
    "rows' = projr (explode_row example_mapping example_config numeric_zero_price_row)"
  define out' where "out' = projr (emitted_compare_prices example_config None example_mapping
     (projr (explode_row example_mapping example_config numeric_zero_price_row)))"
  have h1: "\<not> cfg_get (bulk_compare_price_mode example_config) False" by code_simp
  have h2: "cfg_get (use_expected_compare_price example_config) True" by code_simp
  have t: "truthy (get_column_value zero_price_row example_mapping
              ''Variant Compare At Price'' (PStr []))" by code_simp
  have t': "\<not> truthy (get_column_value numeric_zero_price_row example_mapping
              ''Variant Compare At Price'' (PStr []))" by code_simp
  have h3: "float_of_str (strip (py_str (get_column_value zero_price_row example_mapping
              ''Variant Compare At Price'' (PStr [])))) = Some (Fin 0)" by code_simp
  have h3': "float_of_str (strip (py_str (get_column_value numeric_zero_price_row
              example_mapping ''Variant Compare At Price'' (PStr [])))) = Some (Fin 0)"
    by code_simp
  have "\<not> isl (explode_row example_mapping example_config zero_price_row)" by code_simp
  then have h4: "explode_row example_mapping example_config zero_price_row = Inr rows"
    unfolding rows_def by simp
  have "\<not> isl (explode_row example_mapping example_config numeric_zero_price_row)"
    by code_simp
  then have h4': "explode_row example_mapping example_config numeric_zero_price_row = Inr rows'"
    unfolding rows'_def by simp
  have "length (projr (explode_row example_mapping example_config zero_price_row)) = 1"
    by code_simp
  then have h5: "0 < length rows" unfolding rows_def by simp
  then have h6: "rows ! 0 \<in> set rows" by (rule nth_mem)
  have "length (projr (explode_row example_mapping example_config numeric_zero_price_row)) = 1"
    by code_simp
  then have h5': "0 < length rows'" unfolding rows'_def by simp
  then have h6': "rows' ! 0 \<in> set rows'" by (rule nth_mem)
  have h7: "\<And>k. (None :: (string \<rightharpoonup> pyval) option) = None \<or>
         (\<exists>st. None = Some st \<and>
            (st k = None \<or> (\<exists>p. st k = Some p \<and> (isna p \<or> p = PStr [] \<or> is_zero p))))"
    by simp
  have "\<not> isl (emitted_compare_prices example_config None example_mapping
     (projr (explode_row example_mapping example_config zero_price_row)))" by code_simp
  then have h8: "emitted_compare_prices example_config None example_mapping rows = Inr out"
    unfolding rows_def out_def by simp
  have "\<not> isl (emitted_compare_prices example_config None example_mapping
     (projr (explode_row example_mapping example_config numeric_zero_price_row)))"
    by code_simp
  then have h8': "emitted_compare_prices example_config None example_mapping rows' = Inr out'"
    unfolding rows'_def out'_def by simp
  from zero_compare_price_serializes_empty [OF h1 h2 h3 h4 h5 h6 h7 h8] t
  have a: "extract_compare_price zero_price_row example_mapping example_config = PFloat (Fin 0)"
    and b: "variant_compare_price example_config None example_mapping (rows ! 0) = Inr PNone"
    and c: "out ! 0 = PStr []"
    by simp_all
  from zero_compare_price_serializes_empty [OF h1 h2 h3' h4' h5' h6' h7 h8'] t'
  have a': "extract_compare_price numeric_zero_price_row example_mapping example_config = PNone"
    and c': "out' ! 0 = PStr []"
    by simp_all
  from a a' b c c' show ?thesis unfolding rows_def out_def out'_def by simp
qed

text \<open>
  Three source rows: a compare price cell with the text \<open>0\<close>, one with the number 0 and
  a blank one. The extracted prices are 0.0, \<open>None\<close> and \<open>None\<close>, and every cell of the
  compare price column of the catalog is the same empty string: the rows with the compare
  price 0 are not serialized distinctly from the row without one.
\<close>

theorem zero_compare_price_counterexample:
  "extract_compare_price zero_price_row example_mapping example_config = PFloat (Fin 0) \<and>
   extract_compare_price numeric_zero_price_row example_mapping example_config = PNone \<and>
   extract_compare_price blank_price_row example_mapping example_config = PNone \<and>
   catalog_compare_prices example_config None example_mapping [zero_price_row]
     = Inr [PStr []] \<and>
   catalog_compare_prices example_config None example_mapping
     [zero_price_row, numeric_zero_price_row, blank_price_row]
     = Inr [PStr [], PStr [], PStr [], PStr []]"
  by code_simp

end
